theory Spec2Isabelle
  imports Main "HOL-Library.Word"
begin

section \<open>Go values used by cmd/utils/flags.go\<close>

subsection \<open>The int type\<close>

text \<open>
  Go's \<^verbatim>\<open>int\<close> is a 64-bit two's complement integer on the 64-bit targets the
  node is built for. It is modelled by \<^typ>\<open>int\<close> with the wrap-around of every
  arithmetic operation written out. Division truncates towards zero.
\<close>

definition wrap64 :: "int \<Rightarrow> int" where
  "wrap64 x = (x + 2 ^ 63) mod 2 ^ 64 - 2 ^ 63"

definition in_int :: "int \<Rightarrow> bool" where
  "in_int x = (- (2 ^ 63) \<le> x \<and> x < 2 ^ 63)"

definition go_add :: "int \<Rightarrow> int \<Rightarrow> int" where
  "go_add a b = wrap64 (a + b)"

definition go_sub :: "int \<Rightarrow> int \<Rightarrow> int" where
  "go_sub a b = wrap64 (a - b)"

definition go_mul :: "int \<Rightarrow> int \<Rightarrow> int" where
  "go_mul a b = wrap64 (a * b)"

text \<open>The quotient \<^verbatim>\<open>a / b\<close> for a non-zero divisor (the source only divides by the
  constants 100 and 2).\<close>

definition go_quo :: "int \<Rightarrow> int \<Rightarrow> int" where
  "go_quo a b = wrap64 (sgn a * sgn b * (\<bar>a\<bar> div \<bar>b\<bar>))"

subsection \<open>Errors, fatal exits and panics\<close>

text \<open>
  A call of \<^verbatim>\<open>fmt.Errorf(format, args...)\<close>, \<^verbatim>\<open>Fatalf(format, args...)\<close> or
  \<^verbatim>\<open>panic(fmt.Sprintf(format, args...))\<close> is kept as the format string with its
  arguments. An error returned by a package outside this file is opaque.
  \<^verbatim>\<open>Fatalf\<close> prints the message and terminates the process; a function that reaches
  it or panics returns \<open>Inl\<close>.
\<close>

datatype fmtarg = FmtString string | FmtInt int | FmtError goerror
  and goerror = Errorf string "fmtarg list" | ExternalError string

datatype failure =
    Fatalf string "fmtarg list"
  | Panic string "fmtarg list"
  | RuntimePanic string

subsection \<open>strings.Join, strings.Split, strings.TrimRight\<close>

fun Join :: "string list \<Rightarrow> string \<Rightarrow> string" where
  "Join [] sep = []"
| "Join [a] sep = a"
| "Join (a # b # rest) sep = a @ sep @ Join (b # rest) sep"

text \<open>\<^verbatim>\<open>strings.Split(s, sep)\<close> for a non-empty separator: the substrings between
  the successive, non-overlapping occurrences of \<open>sep\<close>, found from the left. The
  accumulator holds the current substring, reversed.\<close>

function Split_from :: "string \<Rightarrow> string \<Rightarrow> string \<Rightarrow> string list" where
  "Split_from sep acc [] = [rev acc]"
| "Split_from sep acc (c # cs) =
     (if sep \<noteq> [] \<and> take (length sep) (c # cs) = sep
      then rev acc # Split_from sep [] (drop (length sep) (c # cs))
      else Split_from sep (c # acc) cs)"
  by pat_completeness auto
termination
  by (relation "measure (\<lambda>(sep, acc, s). length s)") auto

definition Split :: "string \<Rightarrow> string \<Rightarrow> string list" where
  "Split s sep = Split_from sep [] s"

text \<open>\<^verbatim>\<open>strings.TrimRight(s, cutset)\<close>: \<open>s\<close> without its trailing characters that
  are in \<open>cutset\<close>. The source's cutset is the single ASCII character CR, which
  never occurs inside a multi-byte UTF-8 sequence, so bytes stand for code points.\<close>

definition TrimRight :: "string \<Rightarrow> string \<Rightarrow> string" where
  "TrimRight s cutset = rev (dropWhile (\<lambda>c. c \<in> set cutset) (rev s))"

text \<open>The decimal rendering of \<^verbatim>\<open>%d\<close>.\<close>

fun digits :: "nat \<Rightarrow> string" where
  "digits n =
     (if n < 10 then [char_of (48 + n)]
      else digits (n div 10) @ [char_of (48 + n mod 10)])"

definition itoa :: "int \<Rightarrow> string" where
  "itoa i = (if i < 0 then CHR ''-'' # digits (nat (- i)) else digits (nat i))"

section \<open>The command line\<close>

text \<open>
  \<^verbatim>\<open>cli.Context\<close> belongs to the option-parsing front end. The code only asks it
  whether a flag was set by the user and what its current value is (the default when
  it was not set); the record holds these queries. \<^verbatim>\<open>GlobalBig\<close> and
  \<^verbatim>\<open>GlobalTextMarshaler\<close> are the helpers of customflags.go, the latter read at the
  sync-mode flag only.
\<close>

datatype SyncMode = FullSync | FastSync | LightSync

record Context =
  GlobalIsSet :: "string \<Rightarrow> bool"
  GlobalString :: "string \<Rightarrow> string"
  GlobalInt :: "string \<Rightarrow> int"
  GlobalBool :: "string \<Rightarrow> bool"
  GlobalUint64 :: "string \<Rightarrow> 64 word"
  GlobalDuration :: "string \<Rightarrow> int"
  GlobalBig :: "string \<Rightarrow> int option"
  GlobalTextMarshaler :: "string \<Rightarrow> SyncMode"

subsection \<open>Flag names\<close>

abbreviation VNTBootnodeFlag_Name :: string where "VNTBootnodeFlag_Name \<equiv> ''vntbootnode''"
abbreviation NetworkIdFlag_Name :: string where "NetworkIdFlag_Name \<equiv> ''networkid''"
abbreviation DocRootFlag_Name :: string where "DocRootFlag_Name \<equiv> ''docroot''"
abbreviation SyncModeFlag_Name :: string where "SyncModeFlag_Name \<equiv> ''syncmode''"
abbreviation GCModeFlag_Name :: string where "GCModeFlag_Name \<equiv> ''gcmode''"
abbreviation LightServFlag_Name :: string where "LightServFlag_Name \<equiv> ''lightserv''"
abbreviation LightPeersFlag_Name :: string where "LightPeersFlag_Name \<equiv> ''lightpeers''"
abbreviation TxPoolNoLocalsFlag_Name :: string where "TxPoolNoLocalsFlag_Name \<equiv> ''txpool.nolocals''"
abbreviation TxPoolJournalFlag_Name :: string where "TxPoolJournalFlag_Name \<equiv> ''txpool.journal''"
abbreviation TxPoolRejournalFlag_Name :: string where "TxPoolRejournalFlag_Name \<equiv> ''txpool.rejournal''"
abbreviation TxPoolPriceLimitFlag_Name :: string where "TxPoolPriceLimitFlag_Name \<equiv> ''txpool.pricelimit''"
abbreviation TxPoolPriceBumpFlag_Name :: string where "TxPoolPriceBumpFlag_Name \<equiv> ''txpool.pricebump''"
abbreviation TxPoolAccountSlotsFlag_Name :: string where "TxPoolAccountSlotsFlag_Name \<equiv> ''txpool.accountslots''"
abbreviation TxPoolGlobalSlotsFlag_Name :: string where "TxPoolGlobalSlotsFlag_Name \<equiv> ''txpool.globalslots''"
abbreviation TxPoolAccountQueueFlag_Name :: string where "TxPoolAccountQueueFlag_Name \<equiv> ''txpool.accountqueue''"
abbreviation TxPoolGlobalQueueFlag_Name :: string where "TxPoolGlobalQueueFlag_Name \<equiv> ''txpool.globalqueue''"
abbreviation TxPoolLifetimeFlag_Name :: string where "TxPoolLifetimeFlag_Name \<equiv> ''txpool.lifetime''"
abbreviation CacheFlag_Name :: string where "CacheFlag_Name \<equiv> ''cache''"
abbreviation CacheDatabaseFlag_Name :: string where "CacheDatabaseFlag_Name \<equiv> ''cache.database''"
abbreviation CacheGCFlag_Name :: string where "CacheGCFlag_Name \<equiv> ''cache.gc''"
abbreviation TrieCacheGenFlag_Name :: string where "TrieCacheGenFlag_Name \<equiv> ''trie-cache-gens''"
abbreviation CoinbaseFlag_Name :: string where "CoinbaseFlag_Name \<equiv> ''coinbase''"
abbreviation GasPriceFlag_Name :: string where "GasPriceFlag_Name \<equiv> ''gasprice''"
abbreviation ExtraDataFlag_Name :: string where "ExtraDataFlag_Name \<equiv> ''extradata''"
abbreviation PasswordFileFlag_Name :: string where "PasswordFileFlag_Name \<equiv> ''password''"
abbreviation VMEnableDebugFlag_Name :: string where "VMEnableDebugFlag_Name \<equiv> ''vmdebug''"
abbreviation MaxPeersFlag_Name :: string where "MaxPeersFlag_Name \<equiv> ''maxpeers''"
abbreviation MaxPendingPeersFlag_Name :: string where "MaxPendingPeersFlag_Name \<equiv> ''maxpendpeers''"
abbreviation ListenPortFlag_Name :: string where "ListenPortFlag_Name \<equiv> ''port''"
abbreviation BootnodesFlag_Name :: string where "BootnodesFlag_Name \<equiv> ''bootnodes''"
abbreviation BootnodesV4Flag_Name :: string where "BootnodesV4Flag_Name \<equiv> ''bootnodesv4''"
abbreviation NodeKeyFileFlag_Name :: string where "NodeKeyFileFlag_Name \<equiv> ''nodekey''"
abbreviation NodeKeyHexFlag_Name :: string where "NodeKeyHexFlag_Name \<equiv> ''nodekeyhex''"
abbreviation NATFlag_Name :: string where "NATFlag_Name \<equiv> ''nat''"
abbreviation NoDiscoverFlag_Name :: string where "NoDiscoverFlag_Name \<equiv> ''nodiscover''"
abbreviation NetrestrictFlag_Name :: string where "NetrestrictFlag_Name \<equiv> ''netrestrict''"
abbreviation GpoBlocksFlag_Name :: string where "GpoBlocksFlag_Name \<equiv> ''gpoblocks''"
abbreviation GpoPercentileFlag_Name :: string where "GpoPercentileFlag_Name \<equiv> ''gpopercentile''"

section \<open>checkExclusive\<close>

text \<open>
  The variadic arguments of \<^verbatim>\<open>checkExclusive\<close> are values of any type: a flag
  (kept by the name \<^verbatim>\<open>GetName\<close> returns), a string that extends the flag before
  it, or a value of another type (kept by the name of its type, which the panic
  message prints).
\<close>

datatype Arg = ArgFlag string | ArgString string | ArgOther string

text \<open>The loop of \<^verbatim>\<open>checkExclusive\<close> over the arguments from index \<open>i\<close> on;
  \<open>sets\<close> is the slice \<^verbatim>\<open>set\<close> of the names collected so far.\<close>

fun checkExclusive_loop :: "Context \<Rightarrow> Arg list \<Rightarrow> string list \<Rightarrow> failure + string list" where
  "checkExclusive_loop ctx [] sets = Inr sets"
| "checkExclusive_loop ctx (ArgFlag flag # ArgString option # rest) sets =
     (let name = (if GlobalString ctx flag = option then flag @ ''='' @ option else flag)
      in checkExclusive_loop ctx rest
           (if GlobalIsSet ctx flag then sets @ [''--'' @ name] else sets))"
| "checkExclusive_loop ctx (ArgFlag flag # ArgOther ty # rest) sets =
     Inl (Panic ''invalid argument, not cli.Flag or string extension: %T'' [FmtString ty])"
| "checkExclusive_loop ctx (ArgFlag flag # rest) sets =
     checkExclusive_loop ctx rest
       (if GlobalIsSet ctx flag then sets @ [''--'' @ flag] else sets)"
| "checkExclusive_loop ctx (ArgString s # rest) sets =
     Inl (Panic ''invalid argument, not cli.Flag type: %T'' [FmtString ''string''])"
| "checkExclusive_loop ctx (ArgOther ty # rest) sets =
     Inl (Panic ''invalid argument, not cli.Flag type: %T'' [FmtString ty])"

definition checkExclusive :: "Context \<Rightarrow> Arg list \<Rightarrow> failure + unit" where
  "checkExclusive ctx args =
     (case checkExclusive_loop ctx args [] of
        Inl f \<Rightarrow> Inl f
      | Inr sets \<Rightarrow>
          if length sets > 1
          then Inl (Fatalf ''Flags %v can't be used at the same time''
                      [FmtString (Join sets '', '')])
          else Inr ())"

section \<open>SetP2PConfig\<close>

text \<open>
  The fields of \<^verbatim>\<open>vntp2p.Config\<close> that this file writes. The key, the port
  mapper, the node address and identity and the network list are values of other
  packages; a type variable stands for each Go type as it is (with its nil). A nil
  slice of bootstrap nodes is \<open>None\<close>: the code tells it from an empty one.
\<close>

record ('addr, 'id) Node =
  Addr :: 'addr
  Id :: 'id

record ('key, 'nat, 'addr, 'id, 'net) P2PConfig =
  PrivateKey :: 'key
  NAT :: 'nat
  ListenAddr :: string
  BootstrapNodes :: "('addr, 'id) Node list option"
  MaxPeers :: int
  MaxPendingPeers :: int
  NoDiscovery :: bool
  NetRestrict :: 'net

text \<open>The functions and the constant of other packages that the setters call.\<close>

record ('key, 'nat, 'addr, 'id, 'net) P2PEnv =
  LoadECDSA :: "string \<Rightarrow> goerror + 'key"
  HexToECDSA :: "string \<Rightarrow> goerror + 'key"
  NATParse :: "string \<Rightarrow> goerror + 'nat"
  GetAddr :: "string \<Rightarrow> goerror + 'addr \<times> 'id"
  ParseNode :: "string \<Rightarrow> goerror + ('addr, 'id) Node"
  ParseNetlist :: "string \<Rightarrow> goerror + 'net"
  MainnetBootnodes :: "string list"

definition setNodeKey ::
  "('key, 'nat, 'addr, 'id, 'net) P2PEnv \<Rightarrow> Context \<Rightarrow>
   ('key, 'nat, 'addr, 'id, 'net) P2PConfig \<Rightarrow>
   failure + ('key, 'nat, 'addr, 'id, 'net) P2PConfig" where
  "setNodeKey env ctx cfg =
     (let hex = GlobalString ctx NodeKeyHexFlag_Name;
          file = GlobalString ctx NodeKeyFileFlag_Name
      in if file \<noteq> [] \<and> hex \<noteq> [] then
           Inl (Fatalf ''Options %q and %q are mutually exclusive''
                  [FmtString NodeKeyFileFlag_Name, FmtString NodeKeyHexFlag_Name])
         else if file \<noteq> [] then
           (case LoadECDSA env file of
              Inl err \<Rightarrow> Inl (Fatalf ''Option %q: %v'' [FmtString NodeKeyFileFlag_Name, FmtError err])
            | Inr key \<Rightarrow> Inr (cfg\<lparr>PrivateKey := key\<rparr>))
         else if hex \<noteq> [] then
           (case HexToECDSA env hex of
              Inl err \<Rightarrow> Inl (Fatalf ''Option %q: %v'' [FmtString NodeKeyHexFlag_Name, FmtError err])
            | Inr key \<Rightarrow> Inr (cfg\<lparr>PrivateKey := key\<rparr>))
         else Inr cfg)"

definition setNAT ::
  "('key, 'nat, 'addr, 'id, 'net) P2PEnv \<Rightarrow> Context \<Rightarrow>
   ('key, 'nat, 'addr, 'id, 'net) P2PConfig \<Rightarrow>
   failure + ('key, 'nat, 'addr, 'id, 'net) P2PConfig" where
  "setNAT env ctx cfg =
     (if GlobalIsSet ctx NATFlag_Name then
        (case NATParse env (GlobalString ctx NATFlag_Name) of
           Inl err \<Rightarrow> Inl (Fatalf ''Option %s: %v'' [FmtString NATFlag_Name, FmtError err])
         | Inr natif \<Rightarrow> Inr (cfg\<lparr>NAT := natif\<rparr>))
      else Inr cfg)"

definition setListenAddress ::
  "Context \<Rightarrow> ('key, 'nat, 'addr, 'id, 'net) P2PConfig \<Rightarrow>
   ('key, 'nat, 'addr, 'id, 'net) P2PConfig" where
  "setListenAddress ctx cfg =
     (if GlobalIsSet ctx ListenPortFlag_Name
      then cfg\<lparr>ListenAddr := '':'' @ itoa (GlobalInt ctx ListenPortFlag_Name)\<rparr>
      else cfg)"

text \<open>The body of \<^verbatim>\<open>setFindNode\<close> is commented out in the source.\<close>

definition setFindNode ::
  "Context \<Rightarrow> ('key, 'nat, 'addr, 'id, 'net) P2PConfig \<Rightarrow>
   ('key, 'nat, 'addr, 'id, 'net) P2PConfig" where
  "setFindNode ctx cfg = cfg"

text \<open>The two loops over the URLs skip (and log) a URL that does not parse.\<close>

definition setVNTBootnode ::
  "('key, 'nat, 'addr, 'id, 'net) P2PEnv \<Rightarrow> Context \<Rightarrow>
   ('key, 'nat, 'addr, 'id, 'net) P2PConfig \<Rightarrow>
   ('key, 'nat, 'addr, 'id, 'net) P2PConfig" where
  "setVNTBootnode env ctx cfg =
     (if GlobalString ctx VNTBootnodeFlag_Name = [] then cfg
      else
        (let urls = Split (GlobalString ctx VNTBootnodeFlag_Name) '','' in
         cfg\<lparr>BootstrapNodes :=
           Some (foldl (\<lambda>nodes url.
                    case GetAddr env url of
                      Inl err \<Rightarrow> nodes
                    | Inr (addr, peerid) \<Rightarrow> nodes @ [\<lparr>Addr = addr, Id = peerid\<rparr>])
                  [] urls)\<rparr>))"

definition setBootstrapNodes ::
  "('key, 'nat, 'addr, 'id, 'net) P2PEnv \<Rightarrow> Context \<Rightarrow>
   ('key, 'nat, 'addr, 'id, 'net) P2PConfig \<Rightarrow>
   ('key, 'nat, 'addr, 'id, 'net) P2PConfig" where
  "setBootstrapNodes env ctx cfg =
     (let parse = (\<lambda>urls.
            cfg\<lparr>BootstrapNodes :=
              Some (foldl (\<lambda>nodes url.
                       case ParseNode env url of
                         Inl err \<Rightarrow> nodes
                       | Inr node \<Rightarrow> nodes @ [node])
                     [] urls)\<rparr>)
      in if GlobalIsSet ctx BootnodesFlag_Name \<or> GlobalIsSet ctx BootnodesV4Flag_Name then
           (if GlobalIsSet ctx BootnodesV4Flag_Name
            then parse (Split (GlobalString ctx BootnodesV4Flag_Name) '','')
            else parse (Split (GlobalString ctx BootnodesFlag_Name) '',''))
         else if BootstrapNodes cfg \<noteq> None then cfg
         else parse (MainnetBootnodes env))"

text \<open>
  Lines 747 to 771 of \<^verbatim>\<open>SetP2PConfig\<close>: the resolution of the peer counts. The
  values the source logs as "Maximum peer count" (\<^verbatim>\<open>ethPeers\<close>, \<^verbatim>\<open>lightPeers\<close>
  and \<^verbatim>\<open>cfg.MaxPeers\<close>) are returned beside the configuration.
\<close>

record PeerCount =
  ethPeers :: int
  lesPeers :: int
  totalPeers :: int

definition SetP2PConfig_peers ::
  "Context \<Rightarrow> ('key, 'nat, 'addr, 'id, 'net) P2PConfig \<Rightarrow>
   ('key, 'nat, 'addr, 'id, 'net) P2PConfig \<times> PeerCount" where
  "SetP2PConfig_peers ctx cfg =
     (let lightClient = (GlobalString ctx SyncModeFlag_Name = ''light'');
          lightServer = (GlobalInt ctx LightServFlag_Name \<noteq> 0);
          lightPeers = GlobalInt ctx LightPeersFlag_Name;
          cfg1 =
            (if GlobalIsSet ctx MaxPeersFlag_Name then
               (let c = cfg\<lparr>MaxPeers := GlobalInt ctx MaxPeersFlag_Name\<rparr>
                in if lightServer \<and> \<not> GlobalIsSet ctx LightPeersFlag_Name
                   then c\<lparr>MaxPeers := go_add (MaxPeers c) lightPeers\<rparr>
                   else c)
             else
               (let c = (if lightServer
                         then cfg\<lparr>MaxPeers := go_add (MaxPeers cfg) lightPeers\<rparr>
                         else cfg)
                in if lightClient \<and> GlobalIsSet ctx LightPeersFlag_Name \<and> MaxPeers c < lightPeers
                   then c\<lparr>MaxPeers := lightPeers\<rparr>
                   else c));
          lightPeers1 = (if \<not> (lightClient \<or> lightServer) then 0 else lightPeers);
          ethPeers0 = go_sub (MaxPeers cfg1) lightPeers1;
          ethPeers1 = (if lightClient then 0 else ethPeers0)
      in (cfg1, \<lparr>ethPeers = ethPeers1, lesPeers = lightPeers1, totalPeers = MaxPeers cfg1\<rparr>))"

definition SetP2PConfig ::
  "('key, 'nat, 'addr, 'id, 'net) P2PEnv \<Rightarrow> Context \<Rightarrow>
   ('key, 'nat, 'addr, 'id, 'net) P2PConfig \<Rightarrow>
   failure + ('key, 'nat, 'addr, 'id, 'net) P2PConfig \<times> PeerCount" where
  "SetP2PConfig env ctx cfg =
     (case setNodeKey env ctx cfg of
        Inl f \<Rightarrow> Inl f
      | Inr cfg1 \<Rightarrow>
     (case setNAT env ctx cfg1 of
        Inl f \<Rightarrow> Inl f
      | Inr cfg2 \<Rightarrow>
     (let cfg3 = setListenAddress ctx cfg2;
          cfg4 = setFindNode ctx cfg3;
          cfg5 = setVNTBootnode env ctx cfg4;
          cfg6 = setBootstrapNodes env ctx cfg5;
          lightClient = (GlobalString ctx SyncModeFlag_Name = ''light'');
          (cfg7, logged) = SetP2PConfig_peers ctx cfg6;
          cfg8 = (if GlobalIsSet ctx MaxPendingPeersFlag_Name
                  then cfg7\<lparr>MaxPendingPeers := GlobalInt ctx MaxPendingPeersFlag_Name\<rparr>
                  else cfg7);
          cfg9 = (if GlobalIsSet ctx NoDiscoverFlag_Name \<or> lightClient
                  then cfg8\<lparr>NoDiscovery := True\<rparr>
                  else cfg8);
          netrestrict = GlobalString ctx NetrestrictFlag_Name
      in if netrestrict \<noteq> [] then
           (case ParseNetlist env netrestrict of
              Inl err \<Rightarrow> Inl (Fatalf ''Option %q: %v'' [FmtString NetrestrictFlag_Name, FmtError err])
            | Inr list \<Rightarrow> Inr (cfg9\<lparr>NetRestrict := list\<rparr>, logged))
         else Inr (cfg9, logged))))"

section \<open>MakePasswordList\<close>

text \<open>\<^verbatim>\<open>ioutil.ReadFile\<close> is a parameter: the content of the file at a path, or the
  error of reading it. A nil slice is \<open>None\<close>.\<close>

definition MakePasswordList ::
  "(string \<Rightarrow> goerror + string) \<Rightarrow> Context \<Rightarrow> failure + string list option" where
  "MakePasswordList ReadFile ctx =
     (let path = GlobalString ctx PasswordFileFlag_Name
      in if path = [] then Inr None
         else
           (case ReadFile path of
              Inl err \<Rightarrow> Inl (Fatalf ''Failed to read password file: %v'' [FmtError err])
            | Inr content \<Rightarrow>
                (let lines = Split content [CHR 0x0A]
                 in Inr (Some (map (\<lambda>line. TrimRight line [CHR 0x0D]) lines)))))"

section \<open>SetEthConfig\<close>

text \<open>The fields of \<^verbatim>\<open>vnt.Config\<close>, \<^verbatim>\<open>gasprice.Config\<close> and
  \<^verbatim>\<open>core.TxPoolConfig\<close> that this file writes. A duration is its number of
  nanoseconds; a \<^verbatim>\<open>*big.Int\<close> is an integer or nil.\<close>

record GPOConfig =
  Blocks :: int
  Percentile :: int

record TxPoolConfig =
  NoLocals :: bool
  Journal :: string
  Rejournal :: int
  PriceLimit :: "64 word"
  PriceBump :: "64 word"
  AccountSlots :: "64 word"
  GlobalSlots :: "64 word"
  AccountQueue :: "64 word"
  GlobalQueue :: "64 word"
  Lifetime :: int

record 'addr Config =
  Coinbase :: 'addr
  GPO :: GPOConfig
  TxPool :: TxPoolConfig
  SyncMode :: SyncMode
  LightServ :: int
  LightPeers :: int
  NetworkId :: "64 word"
  DatabaseCache :: int
  DatabaseHandles :: int
  NoPruning :: bool
  TrieCache :: int
  DocRoot :: string
  ExtraData :: string
  GasPrice :: "int option"
  EnablePreimageRecording :: bool

text \<open>Of \<^verbatim>\<open>accounts.Account\<close> the code reads the address only.\<close>

record 'addr Account =
  Address :: 'addr

text \<open>
  What \<^verbatim>\<open>SetEthConfig\<close> calls in other packages:
  \<open>Backends\<close> is \<^verbatim>\<open>stack.AccountManager().Backends(keystore.KeyStoreType)\<close>,
  \<open>asKeyStore\<close> the type assertion to \<^verbatim>\<open>*keystore.KeyStore\<close> (\<open>None\<close> where it
  panics), \<open>Accounts\<close> is \<^verbatim>\<open>ks.Accounts()\<close>, \<open>Atoi\<close> is \<^verbatim>\<open>strconv.Atoi\<close>,
  \<open>fdlimit_Current\<close> and \<open>fdlimit_Raise\<close> are the calls of package fdlimit.
\<close>

record ('stack, 'backend, 'ks, 'addr) EthEnv =
  Backends :: "'stack \<Rightarrow> 'backend list"
  asKeyStore :: "'backend \<Rightarrow> 'ks option"
  Accounts :: "'ks \<Rightarrow> 'addr Account list"
  IsHexAddress :: "string \<Rightarrow> bool"
  HexToAddress :: "string \<Rightarrow> 'addr"
  Atoi :: "string \<Rightarrow> goerror + int"
  fdlimit_Current :: "goerror + int"
  fdlimit_Raise :: "int \<Rightarrow> goerror option"

definition MakeAddress ::
  "('stack, 'backend, 'ks, 'addr) EthEnv \<Rightarrow> 'ks \<Rightarrow> string \<Rightarrow> goerror + 'addr Account" where
  "MakeAddress env ks account =
     (if IsHexAddress env account then Inr \<lparr>Address = HexToAddress env account\<rparr>
      else
        (case Atoi env account of
           Inl err \<Rightarrow> Inl (Errorf ''invalid account address or index %q'' [FmtString account])
         | Inr index \<Rightarrow>
             if index < 0
             then Inl (Errorf ''invalid account address or index %q'' [FmtString account])
             else
               (let accs = Accounts env ks
                in if int (length accs) \<le> index
                   then Inl (Errorf ''index %d higher than number of accounts %d''
                               [FmtInt index, FmtInt (int (length accs))])
                   else Inr (accs ! nat index))))"

definition setCoinbase ::
  "('stack, 'backend, 'ks, 'addr) EthEnv \<Rightarrow> Context \<Rightarrow> 'ks \<Rightarrow> 'addr Config \<Rightarrow>
   failure + 'addr Config" where
  "setCoinbase env ctx ks cfg =
     (if GlobalIsSet ctx CoinbaseFlag_Name then
        (case MakeAddress env ks (GlobalString ctx CoinbaseFlag_Name) of
           Inl err \<Rightarrow> Inl (Fatalf ''Option %q: %v'' [FmtString CoinbaseFlag_Name, FmtError err])
         | Inr account \<Rightarrow> Inr (cfg\<lparr>Coinbase := Address account\<rparr>))
      else Inr cfg)"

definition setGPO :: "Context \<Rightarrow> GPOConfig \<Rightarrow> GPOConfig" where
  "setGPO ctx cfg =
     (let cfg1 = (if GlobalIsSet ctx GpoBlocksFlag_Name
                  then cfg\<lparr>Blocks := GlobalInt ctx GpoBlocksFlag_Name\<rparr> else cfg);
          cfg2 = (if GlobalIsSet ctx GpoPercentileFlag_Name
                  then cfg1\<lparr>Percentile := GlobalInt ctx GpoPercentileFlag_Name\<rparr> else cfg1)
      in cfg2)"

definition setTxPool :: "Context \<Rightarrow> TxPoolConfig \<Rightarrow> TxPoolConfig" where
  "setTxPool ctx cfg =
     (let cfg1 = (if GlobalIsSet ctx TxPoolNoLocalsFlag_Name
                  then cfg\<lparr>NoLocals := GlobalBool ctx TxPoolNoLocalsFlag_Name\<rparr> else cfg);
          cfg2 = (if GlobalIsSet ctx TxPoolJournalFlag_Name
                  then cfg1\<lparr>Journal := GlobalString ctx TxPoolJournalFlag_Name\<rparr> else cfg1);
          cfg3 = (if GlobalIsSet ctx TxPoolRejournalFlag_Name
                  then cfg2\<lparr>Rejournal := GlobalDuration ctx TxPoolRejournalFlag_Name\<rparr> else cfg2);
          cfg4 = (if GlobalIsSet ctx TxPoolPriceLimitFlag_Name
                  then cfg3\<lparr>PriceLimit := GlobalUint64 ctx TxPoolPriceLimitFlag_Name\<rparr> else cfg3);
          cfg5 = (if GlobalIsSet ctx TxPoolPriceBumpFlag_Name
                  then cfg4\<lparr>PriceBump := GlobalUint64 ctx TxPoolPriceBumpFlag_Name\<rparr> else cfg4);
          cfg6 = (if GlobalIsSet ctx TxPoolAccountSlotsFlag_Name
                  then cfg5\<lparr>AccountSlots := GlobalUint64 ctx TxPoolAccountSlotsFlag_Name\<rparr> else cfg5);
          cfg7 = (if GlobalIsSet ctx TxPoolGlobalSlotsFlag_Name
                  then cfg6\<lparr>GlobalSlots := GlobalUint64 ctx TxPoolGlobalSlotsFlag_Name\<rparr> else cfg6);
          cfg8 = (if GlobalIsSet ctx TxPoolAccountQueueFlag_Name
                  then cfg7\<lparr>AccountQueue := GlobalUint64 ctx TxPoolAccountQueueFlag_Name\<rparr> else cfg7);
          cfg9 = (if GlobalIsSet ctx TxPoolGlobalQueueFlag_Name
                  then cfg8\<lparr>GlobalQueue := GlobalUint64 ctx TxPoolGlobalQueueFlag_Name\<rparr> else cfg8);
          cfg10 = (if GlobalIsSet ctx TxPoolLifetimeFlag_Name
                   then cfg9\<lparr>Lifetime := GlobalDuration ctx TxPoolLifetimeFlag_Name\<rparr> else cfg9)
      in cfg10)"

definition makeDatabaseHandles :: "('stack, 'backend, 'ks, 'addr) EthEnv \<Rightarrow> failure + int" where
  "makeDatabaseHandles env =
     (case fdlimit_Current env of
        Inl err \<Rightarrow> Inl (Fatalf ''Failed to retrieve file descriptor allowance: %v'' [FmtError err])
      | Inr limit \<Rightarrow>
          (case (if limit < 2048 then fdlimit_Raise env 2048 else None) of
             Some err \<Rightarrow> Inl (Fatalf ''Failed to raise file descriptor allowance: %v'' [FmtError err])
           | None \<Rightarrow> Inr (go_quo (if limit > 2048 then 2048 else limit) 2)))"

text \<open>
  Lines 921 to 937 of \<^verbatim>\<open>SetEthConfig\<close> (from the sync mode to the database cache)
  and lines 943 to 960 (from the pruning switch to the preimage recording): the
  assignments between the calls that can end the process.
\<close>

definition SetEthConfig_network :: "Context \<Rightarrow> 'addr Config \<Rightarrow> 'addr Config" where
  "SetEthConfig_network ctx cfg =
     (let cfg1 = (if GlobalIsSet ctx SyncModeFlag_Name
                  then cfg\<lparr>SyncMode := GlobalTextMarshaler ctx SyncModeFlag_Name\<rparr> else cfg);
          cfg2 = (if GlobalIsSet ctx LightServFlag_Name
                  then cfg1\<lparr>LightServ := GlobalInt ctx LightServFlag_Name\<rparr> else cfg1);
          cfg3 = (if GlobalIsSet ctx LightPeersFlag_Name
                  then cfg2\<lparr>LightPeers := GlobalInt ctx LightPeersFlag_Name\<rparr> else cfg2);
          cfg4 = (if GlobalIsSet ctx NetworkIdFlag_Name
                  then cfg3\<lparr>NetworkId := GlobalUint64 ctx NetworkIdFlag_Name\<rparr> else cfg3);
          cfg5 = (if GlobalIsSet ctx CacheFlag_Name \<or> GlobalIsSet ctx CacheDatabaseFlag_Name
                  then cfg4\<lparr>DatabaseCache :=
                         go_quo (go_mul (GlobalInt ctx CacheFlag_Name)
                                        (GlobalInt ctx CacheDatabaseFlag_Name)) 100\<rparr>
                  else cfg4)
      in cfg5)"

definition SetEthConfig_pruning :: "Context \<Rightarrow> 'addr Config \<Rightarrow> 'addr Config" where
  "SetEthConfig_pruning ctx cfg =
     (let cfg1 = cfg\<lparr>NoPruning := (GlobalString ctx GCModeFlag_Name = ''archive'')\<rparr>;
          cfg2 = (if GlobalIsSet ctx CacheFlag_Name \<or> GlobalIsSet ctx CacheGCFlag_Name
                  then cfg1\<lparr>TrieCache :=
                         go_quo (go_mul (GlobalInt ctx CacheFlag_Name)
                                        (GlobalInt ctx CacheGCFlag_Name)) 100\<rparr>
                  else cfg1);
          cfg3 = (if GlobalIsSet ctx DocRootFlag_Name
                  then cfg2\<lparr>DocRoot := GlobalString ctx DocRootFlag_Name\<rparr> else cfg2);
          cfg4 = (if GlobalIsSet ctx ExtraDataFlag_Name
                  then cfg3\<lparr>ExtraData := GlobalString ctx ExtraDataFlag_Name\<rparr> else cfg3);
          cfg5 = (if GlobalIsSet ctx GasPriceFlag_Name
                  then cfg4\<lparr>GasPrice := GlobalBig ctx GasPriceFlag_Name\<rparr> else cfg4);
          cfg6 = (if GlobalIsSet ctx VMEnableDebugFlag_Name
                  then cfg5\<lparr>EnablePreimageRecording := GlobalBool ctx VMEnableDebugFlag_Name\<rparr>
                  else cfg5)
      in cfg6)"

text \<open>
  \<^verbatim>\<open>SetEthConfig\<close> writes the configuration in place and the package variable
  \<^verbatim>\<open>state.MaxTrieCacheGen\<close> (a \<^verbatim>\<open>uint16\<close>); the model takes both and returns
  both. The index \<^verbatim>\<open>[0]\<close> into an empty list of backends panics.
\<close>

definition SetEthConfig ::
  "('stack, 'backend, 'ks, 'addr) EthEnv \<Rightarrow> Context \<Rightarrow> 'stack \<Rightarrow> 'addr Config \<Rightarrow> 16 word \<Rightarrow>
   failure + 'addr Config \<times> 16 word" where
  "SetEthConfig env ctx stack cfg MaxTrieCacheGen =
     (case checkExclusive ctx [ArgFlag LightServFlag_Name, ArgFlag SyncModeFlag_Name, ArgString ''light''] of
        Inl f \<Rightarrow> Inl f
      | Inr _ \<Rightarrow>
     (case Backends env stack of
        [] \<Rightarrow> Inl (RuntimePanic ''index out of range'')
      | backend # _ \<Rightarrow>
     (case asKeyStore env backend of
        None \<Rightarrow> Inl (RuntimePanic ''interface conversion'')
      | Some ks \<Rightarrow>
     (case setCoinbase env ctx ks cfg of
        Inl f \<Rightarrow> Inl f
      | Inr cfg1 \<Rightarrow>
     (let cfg2 = cfg1\<lparr>GPO := setGPO ctx (GPO cfg1)\<rparr>;
          cfg3 = cfg2\<lparr>TxPool := setTxPool ctx (TxPool cfg2)\<rparr>;
          cfg4 = SetEthConfig_network ctx cfg3
      in (case makeDatabaseHandles env of
            Inl f \<Rightarrow> Inl f
          | Inr handles \<Rightarrow>
         (let cfg5 = cfg4\<lparr>DatabaseHandles := handles\<rparr>;
              gcmode = GlobalString ctx GCModeFlag_Name
          in if gcmode \<noteq> ''full'' \<and> gcmode \<noteq> ''archive'' then
               Inl (Fatalf (''--%s must be either 'full' or 'archive'' @ [CHR 0x27])
                      [FmtString GCModeFlag_Name])
             else
               (let cfg6 = SetEthConfig_pruning ctx cfg5;
                    gen = GlobalInt ctx TrieCacheGenFlag_Name
                in Inr (cfg6, if gen > 0 then word_of_int gen else MaxTrieCacheGen)))))))))"

section \<open>RegisterEthService\<close>

text \<open>
  The constructors of the services are calls into packages les and vnt. A run of a
  registered constructor returns the service and the error as the source does, and
  the calls it made into those packages, in order.
\<close>

datatype ('full, 'ls) Call =
    Call_les_New
  | Call_vnt_New
  | Call_NewLesServer 'full
  | Call_AddLesServer 'full 'ls

datatype ('full, 'light) Service = LightService "'light option" | FullService "'full option"

record ('full, 'light, 'ls) Constructed =
  service :: "('full, 'light) Service"
  err :: "goerror option"
  calls :: "('full, 'ls) Call list"

text \<open>
  Modelled from the spec: \<^verbatim>\<open>node.Node\<close> and its method \<^verbatim>\<open>Register\<close> are not in
  this file. The registry records deferred service-construction factories, which are
  executed at node startup in registration order; \<open>Register\<close> appends the factory.
  Whether the node refuses the registration is the parameter \<open>Register_refuses\<close>.
\<close>

record ('sctx, 'full, 'light, 'ls) Stack =
  serviceFuncs :: "('sctx \<Rightarrow> ('full, 'light, 'ls) Constructed) list"

record ('sctx, 'addr, 'full, 'light, 'ls) NodeEnv =
  les_New :: "'sctx \<Rightarrow> 'addr Config \<Rightarrow> 'light option \<times> goerror option"
  vnt_New :: "'sctx \<Rightarrow> 'addr Config \<Rightarrow> ('sctx, 'full, 'light, 'ls) Stack \<Rightarrow> 'full option \<times> goerror option"
  NewLesServer :: "'full \<Rightarrow> 'addr Config \<Rightarrow> 'ls \<times> goerror option"
  AddLesServer :: "'full \<Rightarrow> 'ls \<Rightarrow> 'full"
  Register_refuses :: "('sctx, 'full, 'light, 'ls) Stack \<Rightarrow> goerror option"

definition Register ::
  "('sctx, 'addr, 'full, 'light, 'ls) NodeEnv \<Rightarrow> ('sctx, 'full, 'light, 'ls) Stack \<Rightarrow>
   ('sctx \<Rightarrow> ('full, 'light, 'ls) Constructed) \<Rightarrow> goerror + ('sctx, 'full, 'light, 'ls) Stack" where
  "Register env stack constructor =
     (case Register_refuses env stack of
        Some e \<Rightarrow> Inl e
      | None \<Rightarrow> Inr (stack\<lparr>serviceFuncs := serviceFuncs stack @ [constructor]\<rparr>))"

text \<open>The two function literals that \<^verbatim>\<open>RegisterEthService\<close> registers.\<close>

definition RegisterEthService_light ::
  "('sctx, 'addr, 'full, 'light, 'ls) NodeEnv \<Rightarrow> 'addr Config \<Rightarrow>
   'sctx \<Rightarrow> ('full, 'light, 'ls) Constructed" where
  "RegisterEthService_light env cfg sctx =
     (let (light, e) = les_New env sctx cfg
      in \<lparr>service = LightService light, err = e, calls = [Call_les_New]\<rparr>)"

definition RegisterEthService_full ::
  "('sctx, 'addr, 'full, 'light, 'ls) NodeEnv \<Rightarrow> ('sctx, 'full, 'light, 'ls) Stack \<Rightarrow>
   'addr Config \<Rightarrow> 'sctx \<Rightarrow> ('full, 'light, 'ls) Constructed" where
  "RegisterEthService_full env stack cfg sctx =
     (let (fullNode, e) = vnt_New env sctx cfg stack
      in case fullNode of
           None \<Rightarrow> \<lparr>service = FullService None, err = e, calls = [Call_vnt_New]\<rparr>
         | Some node \<Rightarrow>
             if LightServ cfg > 0 then
               (let (ls, _) = NewLesServer env node cfg
                in \<lparr>service = FullService (Some (AddLesServer env node ls)), err = e,
                    calls = [Call_vnt_New, Call_NewLesServer node, Call_AddLesServer node ls]\<rparr>)
             else \<lparr>service = FullService (Some node), err = e, calls = [Call_vnt_New]\<rparr>)"

definition RegisterEthService ::
  "('sctx, 'addr, 'full, 'light, 'ls) NodeEnv \<Rightarrow> ('sctx, 'full, 'light, 'ls) Stack \<Rightarrow>
   'addr Config \<Rightarrow> failure + ('sctx, 'full, 'light, 'ls) Stack" where
  "RegisterEthService env stack cfg =
     (case (if SyncMode cfg = LightSync
            then Register env stack (RegisterEthService_light env cfg)
            else Register env stack (RegisterEthService_full env stack cfg)) of
        Inl e \<Rightarrow> Inl (Fatalf ''Failed to register the VNT service: %v'' [FmtError e])
      | Inr stack1 \<Rightarrow> Inr stack1)"

section \<open>The mutual-exclusion check as specified\<close>

text \<open>
  The specification's \<^verbatim>\<open>checkMutuallyExclusive\<close>, written from its words for the
  comparison with \<^const>\<open>checkExclusive\<close>: a group is a list of options, each with
  an optional literal qualifier; a member counts when it is explicitly set and, if
  qualified, its current value equals the qualifier; the check fails when more than
  one member counts.
\<close>

definition spec_qualifying :: "Context \<Rightarrow> (string \<times> string option) list \<Rightarrow> (string \<times> string option) list" where
  "spec_qualifying ctx members =
     filter (\<lambda>(name, qualifier).
               GlobalIsSet ctx name \<and>
               (case qualifier of None \<Rightarrow> True | Some v \<Rightarrow> GlobalString ctx name = v))
            members"

definition spec_checkMutuallyExclusive :: "Context \<Rightarrow> (string \<times> string option) list \<Rightarrow> bool" where
  "spec_checkMutuallyExclusive ctx members = (length (spec_qualifying ctx members) > 1)"

text \<open>The arguments of \<^const>\<open>checkExclusive\<close> that pass a group.\<close>

fun group_args :: "(string \<times> string option) list \<Rightarrow> Arg list" where
  "group_args [] = []"
| "group_args ((name, None) # members) = ArgFlag name # group_args members"
| "group_args ((name, Some v) # members) = ArgFlag name # ArgString v # group_args members"

text \<open>The name under which \<^const>\<open>checkExclusive\<close> lists a member that is set: the
  qualifier is appended when the current value equals it.\<close>

definition listed_name :: "Context \<Rightarrow> string \<times> string option \<Rightarrow> string" where
  "listed_name ctx member =
     (case member of
        (name, None) \<Rightarrow> ''--'' @ name
      | (name, Some v) \<Rightarrow>
          ''--'' @ (if GlobalString ctx name = v then name @ ''='' @ v else name))"

section \<open>Example inputs\<close>

text \<open>
  A command line without any option: no flag is set and every query returns the
  flag's default. The default of the light-peer count is declared in package vnt; the
  example takes the 25 of the specification's examples.
\<close>

definition no_flags :: Context where
  "no_flags =
     \<lparr>GlobalIsSet = (\<lambda>name. False),
      GlobalString = (\<lambda>name.
         if name = GCModeFlag_Name then ''full''
         else if name = SyncModeFlag_Name then ''fast''
         else []),
      GlobalInt = (\<lambda>name.
         if name = MaxPeersFlag_Name then 25
         else if name = LightPeersFlag_Name then 25
         else if name = CacheFlag_Name then 1024
         else if name = CacheDatabaseFlag_Name then 75
         else if name = CacheGCFlag_Name then 25
         else 0),
      GlobalBool = (\<lambda>name. False),
      GlobalUint64 = (\<lambda>name. 0),
      GlobalDuration = (\<lambda>name. 0),
      GlobalBig = (\<lambda>name. None),
      GlobalTextMarshaler = (\<lambda>name. FastSync)\<rparr>"

text \<open>The command line extended by an integer option, a string option, or the
  sync mode.\<close>

definition with_int :: "string \<Rightarrow> int \<Rightarrow> Context \<Rightarrow> Context" where
  "with_int name v ctx =
     ctx\<lparr>GlobalIsSet := (GlobalIsSet ctx)(name := True),
         GlobalInt := (GlobalInt ctx)(name := v)\<rparr>"

definition with_string :: "string \<Rightarrow> string \<Rightarrow> Context \<Rightarrow> Context" where
  "with_string name v ctx =
     ctx\<lparr>GlobalIsSet := (GlobalIsSet ctx)(name := True),
         GlobalString := (GlobalString ctx)(name := v)\<rparr>"

definition with_syncmode :: "string \<Rightarrow> SyncMode \<Rightarrow> Context \<Rightarrow> Context" where
  "with_syncmode text mode ctx =
     ctx\<lparr>GlobalIsSet := (GlobalIsSet ctx)(SyncModeFlag_Name := True),
         GlobalString := (GlobalString ctx)(SyncModeFlag_Name := text),
         GlobalTextMarshaler := (GlobalTextMarshaler ctx)(SyncModeFlag_Name := mode)\<rparr>"

definition p2p_env0 :: "(unit, unit, string, string, unit) P2PEnv" where
  "p2p_env0 =
     \<lparr>LoadECDSA = (\<lambda>file. Inr ()),
      HexToECDSA = (\<lambda>hex. Inr ()),
      NATParse = (\<lambda>spec. Inr ()),
      GetAddr = (\<lambda>url. Inr (url, url)),
      ParseNode = (\<lambda>url. Inr \<lparr>Addr = url, Id = url\<rparr>),
      ParseNetlist = (\<lambda>s. Inr ()),
      MainnetBootnodes = []\<rparr>"

definition p2p_cfg0 :: "(unit, unit, string, string, unit) P2PConfig" where
  "p2p_cfg0 =
     \<lparr>PrivateKey = (), NAT = (), ListenAddr = '':30303'', BootstrapNodes = None,
      MaxPeers = 25, MaxPendingPeers = 0, NoDiscovery = False, NetRestrict = ()\<rparr>"

definition eth_env0 :: "(unit, unit, unit, string) EthEnv" where
  "eth_env0 =
     \<lparr>Backends = (\<lambda>stack. [()]),
      asKeyStore = (\<lambda>backend. Some ()),
      Accounts = (\<lambda>ks. []),
      IsHexAddress = (\<lambda>s. False),
      HexToAddress = (\<lambda>s. s),
      Atoi = (\<lambda>s. Inl (ExternalError ''invalid syntax'')),
      fdlimit_Current = Inr 4096,
      fdlimit_Raise = (\<lambda>n. None)\<rparr>"

definition eth_cfg0 :: "string Config" where
  "eth_cfg0 =
     \<lparr>Coinbase = [],
      GPO = \<lparr>Blocks = 20, Percentile = 60\<rparr>,
      TxPool = \<lparr>NoLocals = False, Journal = ''transactions.rlp'', Rejournal = 3600000000000,
                PriceLimit = 1, PriceBump = 10, AccountSlots = 16, GlobalSlots = 4096,
                AccountQueue = 64, GlobalQueue = 1024, Lifetime = 10800000000000\<rparr>,
      SyncMode = FastSync, LightServ = 0, LightPeers = 25, NetworkId = 1,
      DatabaseCache = 768, DatabaseHandles = 0, NoPruning = False, TrieCache = 256,
      DocRoot = [], ExtraData = [], GasPrice = None, EnablePreimageRecording = False\<rparr>"

definition node_env0 :: "(unit, string, nat, nat, nat) NodeEnv" where
  "node_env0 =
     \<lparr>les_New = (\<lambda>sctx cfg. (Some 1, None)),
      vnt_New = (\<lambda>sctx cfg stack. (Some 2, None)),
      NewLesServer = (\<lambda>node cfg. (3, None)),
      AddLesServer = (\<lambda>node ls. node + ls),
      Register_refuses = (\<lambda>stack. None)\<rparr>"

definition stack0 :: "(unit, nat, nat, nat) Stack" where
  "stack0 = \<lparr>serviceFuncs = []\<rparr>"

text \<open>A password file with DOS line endings.\<close>

definition ReadFile0 :: "string \<Rightarrow> goerror + string" where
  "ReadFile0 path =
     (if path = ''passwords.txt''
      then Inr (''secret'' @ [CHR 0x0D, CHR 0x0A] @ ''hunter2'' @ [CHR 0x0D, CHR 0x0A])
      else Inl (ExternalError ''no such file or directory''))"

section \<open>Facts about the Go values\<close>

declare digits.simps [simp del]

lemmas example_defs =
  no_flags_def with_int_def with_string_def with_syncmode_def
  p2p_env0_def p2p_cfg0_def eth_env0_def eth_cfg0_def node_env0_def stack0_def ReadFile0_def

lemmas go_int_defs = go_add_def go_sub_def go_mul_def go_quo_def wrap64_def

lemma wrap64_in_int: "in_int x \<Longrightarrow> wrap64 x = x"
  by (simp add: wrap64_def in_int_def)

lemma go_add_in_int: "in_int (a + b) \<Longrightarrow> go_add a b = a + b"
  by (simp add: go_add_def wrap64_in_int)

lemma go_sub_in_int: "in_int (a - b) \<Longrightarrow> go_sub a b = a - b"
  by (simp add: go_sub_def wrap64_in_int)

lemma go_mul_in_int: "in_int (a * b) \<Longrightarrow> go_mul a b = a * b"
  by (simp add: go_mul_def wrap64_in_int)

lemma go_quo_nonneg:
  assumes a: "0 \<le> a" and b: "0 < b" and r: "a < 2 ^ 63"
  shows "go_quo a b = a div b"
proof -
  have "0 \<le> a div b" using a b by (simp add: pos_imp_zdiv_nonneg_iff)
  moreover have "a div b \<le> a"
  proof (cases "a = 0")
    case True
    then show ?thesis by simp
  next
    case False
    then show ?thesis using a by (simp add: int_div_le_self)
  qed
  ultimately have "in_int (a div b)" using r by (simp add: in_int_def)
  moreover have "sgn a * sgn b * (\<bar>a\<bar> div \<bar>b\<bar>) = a div b"
    using a b by (cases "a = 0") (simp_all add: sgn_if)
  ultimately show ?thesis by (simp add: go_quo_def wrap64_in_int)
qed

text \<open>The share of a budget \<open>B\<close> at a percentage \<open>p\<close>, as the source computes it.\<close>

lemma cache_share:
  assumes B: "0 \<le> B" and p: "0 \<le> p" "p \<le> 100" and r: "B * 100 < 2 ^ 63"
  shows "go_quo (go_mul B p) 100 = (B * p) div 100"
proof -
  have le: "B * p \<le> B * 100" using B p by (simp add: mult_left_mono)
  have nn: "0 \<le> B * p" using B p by simp
  have "in_int (B * p)" using le nn r by (simp add: in_int_def)
  then have "go_mul B p = B * p" by (rule go_mul_in_int)
  moreover have "go_quo (B * p) 100 = (B * p) div 100"
    using nn le r by (intro go_quo_nonneg) simp_all
  ultimately show ?thesis by simp
qed

lemma cache_shares_sum:
  assumes B: "(0::int) \<le> B" and a: "0 \<le> a" and b: "0 \<le> b" and s: "a + b \<le> 100"
  shows "(B * a) div 100 + (B * b) div 100 \<le> B"
proof -
  have "B * (a + b) \<le> B * 100" using B s by (rule mult_left_mono [OF _ _, rotated]) 
  then have "B * a + B * b \<le> 100 * B" by (simp add: distrib_left)
  moreover have "0 \<le> B * a" "0 \<le> B * b" using B a b by simp_all
  ultimately show ?thesis by arith
qed

lemma cache_shares_below:
  assumes B: "(0::int) < B" and a: "0 \<le> a" and b: "0 \<le> b" and s: "a + b < 100"
  shows "(B * a) div 100 + (B * b) div 100 < B"
proof -
  have "a + b \<le> 99" using s by simp
  then have "B * (a + b) \<le> B * 99" using B by (intro mult_left_mono) simp_all
  then have "B * a + B * b \<le> 99 * B" by (simp add: distrib_left)
  moreover have "0 \<le> B * a" "0 \<le> B * b" using B a b by simp_all
  ultimately show ?thesis using B by arith
qed

subsection \<open>Split and TrimRight\<close>

lemma Split_from_not_Nil: "Split_from sep acc s \<noteq> []"
  by (induction sep acc s rule: Split_from.induct) auto

lemma Join_Cons: "ys \<noteq> [] \<Longrightarrow> Join (x # ys) sep = x @ sep @ Join ys sep"
  by (cases ys) auto

lemma Split_from_Join: "Join (Split_from [c] acc s) [c] = rev acc @ s"
  by (induction "[c]" acc s rule: Split_from.induct) (auto simp: Join_Cons Split_from_not_Nil)

lemma Split_from_no_sep:
  "c \<notin> set acc \<Longrightarrow> l \<in> set (Split_from [c] acc s) \<Longrightarrow> c \<notin> set l"
  by (induction "[c]" acc s arbitrary: l rule: Split_from.induct) (auto split: if_splits)

lemma Split_from_length: "length (Split_from [c] acc s) = Suc (count_list s c)"
  by (induction "[c]" acc s rule: Split_from.induct) auto

lemma Split_Join: "Join (Split s [c]) [c] = s"
  by (simp add: Split_def Split_from_Join)

lemma Split_no_sep: "l \<in> set (Split s [c]) \<Longrightarrow> c \<notin> set l"
  using Split_from_no_sep [of c "[]" l s] by (simp add: Split_def)

lemma Split_length: "length (Split s [c]) = Suc (count_list s c)"
  by (simp add: Split_def Split_from_length)

lemma dropWhile_eq_replicate: "\<exists>k. xs = replicate k c @ dropWhile (\<lambda>x. x = c) xs"
proof (induction xs)
  case Nil
  then show ?case by simp
next
  case (Cons x xs)
  show ?case
  proof (cases "x = c")
    case True
    from Cons obtain k where k: "xs = replicate k c @ dropWhile (\<lambda>x. x = c) xs" ..
    have "x # xs = c # (replicate k c @ dropWhile (\<lambda>x. x = c) xs)"
      using True by (subst k [symmetric]) simp
    then have "x # xs = replicate (Suc k) c @ dropWhile (\<lambda>x. x = c) (x # xs)"
      using True by simp
    then show ?thesis ..
  next
    case False
    then have "x # xs = replicate 0 c @ dropWhile (\<lambda>x. x = c) (x # xs)" by simp
    then show ?thesis ..
  qed
qed

lemma TrimRight_replicate: "\<exists>k. s = TrimRight s [c] @ replicate k c"
proof -
  obtain k where k: "rev s = replicate k c @ dropWhile (\<lambda>x. x = c) (rev s)"
    using dropWhile_eq_replicate [of "rev s" c] ..
  have "s = rev (rev s)" by simp
  also have "\<dots> = rev (replicate k c @ dropWhile (\<lambda>x. x = c) (rev s))"
    by (subst k [symmetric]) (rule refl)
  also have "\<dots> = TrimRight s [c] @ replicate k c"
    by (simp add: TrimRight_def)
  finally show ?thesis ..
qed

lemma TrimRight_last: "TrimRight s [c] = [] \<or> last (TrimRight s [c]) \<noteq> c"
proof (cases "dropWhile (\<lambda>x. x = c) (rev s) = []")
  case True
  then show ?thesis by (simp add: TrimRight_def)
next
  case False
  then have "hd (dropWhile (\<lambda>x. x = c) (rev s)) \<noteq> c"
    using hd_dropWhile [of "\<lambda>x. x = c" "rev s"] by simp
  then show ?thesis using False by (simp add: TrimRight_def last_rev)
qed

section \<open>Facts about SetP2PConfig\<close>

text \<open>The setters that run before the peer counts are resolved leave the peer
  limit and the discovery switch as they were.\<close>

lemma setNodeKey_frame:
  "setNodeKey env ctx cfg = Inr c \<Longrightarrow> MaxPeers c = MaxPeers cfg \<and> NoDiscovery c = NoDiscovery cfg"
  by (auto simp: setNodeKey_def Let_def split: if_splits sum.splits)

lemma setNAT_frame:
  "setNAT env ctx cfg = Inr c \<Longrightarrow> MaxPeers c = MaxPeers cfg \<and> NoDiscovery c = NoDiscovery cfg"
  by (auto simp: setNAT_def split: if_splits sum.splits)

lemma setListenAddress_frame:
  "MaxPeers (setListenAddress ctx cfg) = MaxPeers cfg \<and>
   NoDiscovery (setListenAddress ctx cfg) = NoDiscovery cfg"
  by (simp add: setListenAddress_def)

lemma setVNTBootnode_frame:
  "MaxPeers (setVNTBootnode env ctx cfg) = MaxPeers cfg \<and>
   NoDiscovery (setVNTBootnode env ctx cfg) = NoDiscovery cfg"
  by (simp add: setVNTBootnode_def Let_def)

lemma setBootstrapNodes_frame:
  "MaxPeers (setBootstrapNodes env ctx cfg) = MaxPeers cfg \<and>
   NoDiscovery (setBootstrapNodes env ctx cfg) = NoDiscovery cfg"
  by (simp add: setBootstrapNodes_def Let_def)

text \<open>The peer counts depend on the configuration through its peer limit only.\<close>

lemma SetP2PConfig_peers_total:
  "totalPeers (snd (SetP2PConfig_peers ctx c)) = MaxPeers (fst (SetP2PConfig_peers ctx c))"
  by (simp add: SetP2PConfig_peers_def Let_def)

lemma SetP2PConfig_peers_NoDiscovery:
  "NoDiscovery (fst (SetP2PConfig_peers ctx c)) = NoDiscovery c"
  by (simp add: SetP2PConfig_peers_def Let_def)

lemma SetP2PConfig_peers_cong:
  "MaxPeers c = MaxPeers d \<Longrightarrow>
   snd (SetP2PConfig_peers ctx c) = snd (SetP2PConfig_peers ctx d) \<and>
   MaxPeers (fst (SetP2PConfig_peers ctx c)) = MaxPeers (fst (SetP2PConfig_peers ctx d))"
  by (simp add: SetP2PConfig_peers_def Let_def)

text \<open>What a run of \<^const>\<open>SetP2PConfig\<close> that returns has computed.\<close>

lemma SetP2PConfig_Inr:
  assumes "SetP2PConfig env ctx cfg = Inr (cfg', pc)"
  shows "pc = snd (SetP2PConfig_peers ctx cfg)"
    and "MaxPeers cfg' = MaxPeers (fst (SetP2PConfig_peers ctx cfg))"
    and "NoDiscovery cfg' =
           (GlobalIsSet ctx NoDiscoverFlag_Name \<or> GlobalString ctx SyncModeFlag_Name = ''light'' \<or>
            NoDiscovery cfg)"
proof -
  from assms obtain c1 c2 where c1: "setNodeKey env ctx cfg = Inr c1"
    and c2: "setNAT env ctx c1 = Inr c2"
    by (auto simp: SetP2PConfig_def split: sum.splits)
  define c6 where "c6 = setBootstrapNodes env ctx (setVNTBootnode env ctx (setFindNode ctx (setListenAddress ctx c2)))"
  have m: "MaxPeers c6 = MaxPeers cfg" and n: "NoDiscovery c6 = NoDiscovery cfg"
    using setNodeKey_frame [OF c1] setNAT_frame [OF c2]
    by (simp_all add: c6_def setBootstrapNodes_frame setVNTBootnode_frame setFindNode_def
        setListenAddress_frame)
  have res: "pc = snd (SetP2PConfig_peers ctx c6) \<and>
      MaxPeers cfg' = MaxPeers (fst (SetP2PConfig_peers ctx c6)) \<and>
      NoDiscovery cfg' =
        (GlobalIsSet ctx NoDiscoverFlag_Name \<or> GlobalString ctx SyncModeFlag_Name = ''light'' \<or>
         NoDiscovery (fst (SetP2PConfig_peers ctx c6)))"
    using assms c1 c2
    by (auto simp: SetP2PConfig_def Let_def c6_def split: sum.splits if_splits prod.splits)
  from res SetP2PConfig_peers_cong [OF m, of ctx]
  show "pc = snd (SetP2PConfig_peers ctx cfg)"
    and "MaxPeers cfg' = MaxPeers (fst (SetP2PConfig_peers ctx cfg))"
    by simp_all
  from res show "NoDiscovery cfg' =
           (GlobalIsSet ctx NoDiscoverFlag_Name \<or> GlobalString ctx SyncModeFlag_Name = ''light'' \<or>
            NoDiscovery cfg)"
    by (simp add: SetP2PConfig_peers_NoDiscovery n)
qed

text \<open>\<^const>\<open>SetP2PConfig\<close> returns unless the node key, the port mapper or the
  network restriction is rejected.\<close>

lemma SetP2PConfig_returns:
  assumes "\<exists>c1. setNodeKey env ctx cfg = Inr c1"
    and "\<not> GlobalIsSet ctx NATFlag_Name \<or> (\<exists>n. NATParse env (GlobalString ctx NATFlag_Name) = Inr n)"
    and "GlobalString ctx NetrestrictFlag_Name = [] \<or>
         (\<exists>l. ParseNetlist env (GlobalString ctx NetrestrictFlag_Name) = Inr l)"
  shows "\<exists>cfg' pc. SetP2PConfig env ctx cfg = Inr (cfg', pc)"
  using assms
  by (auto simp: SetP2PConfig_def setNAT_def Let_def split: sum.splits prod.splits)

section \<open>The peer topology (claims C2, C4, C5 and C10)\<close>

lemma go_sub_nonneg: "0 \<le> x \<Longrightarrow> x < 2 ^ 63 \<Longrightarrow> 0 \<le> y \<Longrightarrow> y < 2 ^ 63 \<Longrightarrow> go_sub x y = x - y"
  by (rule go_sub_in_int) (simp add: in_int_def)

lemma go_add_nonneg: "0 \<le> x \<Longrightarrow> 0 \<le> y \<Longrightarrow> x + y < 2 ^ 63 \<Longrightarrow> go_add x y = x + y"
  by (rule go_add_in_int) (simp add: in_int_def)

text \<open>
  Claim C2, as stated, fails: the peer counts are not always non-negative, and the
  peer limit of a light client or light server can stay below the light-peer count.
  With \<^verbatim>\<open>--maxpeers 10 --lightserv 10 --lightpeers 100\<close> the explicit limit of 10 is
  kept, so the full-protocol count is 10 - 100 = -90 and the limit 10 is below the
  light-peer count 100. With \<^verbatim>\<open>--syncmode light --maxpeers 10\<close> the limit 10 is
  below the default light-peer count 25; so it is with \<^verbatim>\<open>--syncmode light\<close> alone
  when the configuration comes with a peer limit of 10. With
  \<^verbatim>\<open>--maxpeers 9223372036854775807 --lightserv 10\<close> the addition of the default 25
  wraps around and the limit is negative.
\<close>

theorem SetP2PConfig_slots_counterexample:
  "map_sum id snd
     (SetP2PConfig p2p_env0
        (with_int LightPeersFlag_Name 100
          (with_int MaxPeersFlag_Name 10 (with_int LightServFlag_Name 10 no_flags)))
        p2p_cfg0)
   = Inr \<lparr>ethPeers = - 90, lesPeers = 100, totalPeers = 10\<rparr>
   \<and>
   map_sum id snd
     (SetP2PConfig p2p_env0
        (with_int MaxPeersFlag_Name 10 (with_syncmode ''light'' LightSync no_flags))
        p2p_cfg0)
   = Inr \<lparr>ethPeers = 0, lesPeers = 25, totalPeers = 10\<rparr>
   \<and>
   map_sum id snd
     (SetP2PConfig p2p_env0 (with_syncmode ''light'' LightSync no_flags)
        (p2p_cfg0\<lparr>MaxPeers := 10\<rparr>))
   = Inr \<lparr>ethPeers = 0, lesPeers = 25, totalPeers = 10\<rparr>
   \<and>
   map_sum id snd
     (SetP2PConfig p2p_env0
        (with_int MaxPeersFlag_Name 9223372036854775807 (with_int LightServFlag_Name 10 no_flags))
        p2p_cfg0)
   = Inr \<lparr>ethPeers = 9223372036854775807, lesPeers = 25, totalPeers = - 9223372036854775784\<rparr>"
  by (simp add: SetP2PConfig_def SetP2PConfig_peers_def setNodeKey_def setNAT_def
      setListenAddress_def setFindNode_def setVNTBootnode_def setBootstrapNodes_def
      example_defs go_int_defs Let_def)

text \<open>
  Claim C2, amended. Let the explicit or default max-peers, the light-peer count and
  the peer limit the configuration comes with be non-negative, and let their sums fit
  the int type. Then whenever \<^const>\<open>SetP2PConfig\<close> returns, the total (which is the
  resolved peer limit) and the light-protocol count are non-negative. The
  full-protocol count is negative exactly when max-peers and light-peer-count are both
  explicitly set, the node is a light server and not a light client, and max-peers is
  below light-peer-count. When the node is a light client or a light server, the
  total is below light-peer-count exactly when an explicit max-peers is below
  light-peer-count and light-peer-count is explicit or the node is no light server,
  or when neither of the two is explicit, the node is no light server and the peer
  limit the configuration comes with is below light-peer-count.
\<close>

theorem SetP2PConfig_slots:
  assumes ret: "SetP2PConfig env ctx cfg = Inr (cfg', pc)"
    and nonneg: "0 \<le> GlobalInt ctx MaxPeersFlag_Name" "0 \<le> GlobalInt ctx LightPeersFlag_Name"
      "0 \<le> MaxPeers cfg"
    and fits: "GlobalInt ctx MaxPeersFlag_Name + GlobalInt ctx LightPeersFlag_Name < 2 ^ 63"
      "MaxPeers cfg + GlobalInt ctx LightPeersFlag_Name < 2 ^ 63"
  shows "0 \<le> totalPeers pc \<and> totalPeers pc = MaxPeers cfg' \<and> 0 \<le> lesPeers pc \<and>
     (ethPeers pc < 0 \<longleftrightarrow>
        GlobalIsSet ctx MaxPeersFlag_Name \<and> GlobalIsSet ctx LightPeersFlag_Name \<and>
        GlobalInt ctx LightServFlag_Name \<noteq> 0 \<and> GlobalString ctx SyncModeFlag_Name \<noteq> ''light'' \<and>
        GlobalInt ctx MaxPeersFlag_Name < GlobalInt ctx LightPeersFlag_Name) \<and>
     (GlobalString ctx SyncModeFlag_Name = ''light'' \<or> GlobalInt ctx LightServFlag_Name \<noteq> 0 \<longrightarrow>
        (totalPeers pc < GlobalInt ctx LightPeersFlag_Name \<longleftrightarrow>
           GlobalIsSet ctx MaxPeersFlag_Name \<and>
           GlobalInt ctx MaxPeersFlag_Name < GlobalInt ctx LightPeersFlag_Name \<and>
           (GlobalIsSet ctx LightPeersFlag_Name \<or> GlobalInt ctx LightServFlag_Name = 0)
           \<or>
           \<not> GlobalIsSet ctx MaxPeersFlag_Name \<and> \<not> GlobalIsSet ctx LightPeersFlag_Name \<and>
           GlobalInt ctx LightServFlag_Name = 0 \<and>
           MaxPeers cfg < GlobalInt ctx LightPeersFlag_Name))"
proof -
  note r = SetP2PConfig_Inr [OF ret]
  have a1: "go_add (GlobalInt ctx MaxPeersFlag_Name) (GlobalInt ctx LightPeersFlag_Name) =
      GlobalInt ctx MaxPeersFlag_Name + GlobalInt ctx LightPeersFlag_Name"
    using nonneg fits by (simp add: go_add_nonneg)
  have a2: "go_add (MaxPeers cfg) (GlobalInt ctx LightPeersFlag_Name) =
      MaxPeers cfg + GlobalInt ctx LightPeersFlag_Name"
    using nonneg fits by (simp add: go_add_nonneg)
  have lt: "GlobalInt ctx MaxPeersFlag_Name < 2 ^ 63" "GlobalInt ctx LightPeersFlag_Name < 2 ^ 63"
    "MaxPeers cfg < 2 ^ 63"
    using nonneg fits by linarith+
  have t: "totalPeers pc = MaxPeers cfg'"
    using r by (simp add: SetP2PConfig_peers_total)
  show ?thesis
    unfolding t unfolding r
    using nonneg fits lt
    by (auto simp: SetP2PConfig_peers_def Let_def a1 a2 go_sub_nonneg)
qed

theorem SetP2PConfig_slots_witness:
  "SetP2PConfig p2p_env0 (with_int LightServFlag_Name 10 no_flags) p2p_cfg0
   = Inr (p2p_cfg0\<lparr>BootstrapNodes := Some [], MaxPeers := 50\<rparr>,
          \<lparr>ethPeers = 25, lesPeers = 25, totalPeers = 50\<rparr>)
   \<and> 0 \<le> GlobalInt (with_int LightServFlag_Name 10 no_flags) MaxPeersFlag_Name
   \<and> 0 \<le> GlobalInt (with_int LightServFlag_Name 10 no_flags) LightPeersFlag_Name
   \<and> 0 \<le> MaxPeers p2p_cfg0
   \<and> GlobalInt (with_int LightServFlag_Name 10 no_flags) MaxPeersFlag_Name
       + GlobalInt (with_int LightServFlag_Name 10 no_flags) LightPeersFlag_Name < 2 ^ 63
   \<and> MaxPeers p2p_cfg0
       + GlobalInt (with_int LightServFlag_Name 10 no_flags) LightPeersFlag_Name < 2 ^ 63
   \<and> GlobalInt (with_int LightServFlag_Name 10 no_flags) LightServFlag_Name \<noteq> 0
   \<and> 0 \<le> totalPeers \<lparr>ethPeers = 25, lesPeers = 25, totalPeers = 50\<rparr>
   \<and> 0 \<le> lesPeers \<lparr>ethPeers = 25, lesPeers = 25, totalPeers = 50\<rparr>
   \<and> \<not> ethPeers \<lparr>ethPeers = 25, lesPeers = 25, totalPeers = 50\<rparr> < 0
   \<and> \<not> totalPeers \<lparr>ethPeers = 25, lesPeers = 25, totalPeers = 50\<rparr>
         < GlobalInt (with_int LightServFlag_Name 10 no_flags) LightPeersFlag_Name"
proof -
  let ?ctx = "with_int LightServFlag_Name 10 no_flags"
  have ret: "SetP2PConfig p2p_env0 ?ctx p2p_cfg0 =
      Inr (p2p_cfg0\<lparr>BootstrapNodes := Some [], MaxPeers := 50\<rparr>,
           \<lparr>ethPeers = 25, lesPeers = 25, totalPeers = 50\<rparr>)"
    by (simp add: SetP2PConfig_def SetP2PConfig_peers_def setNodeKey_def setNAT_def
        setListenAddress_def setFindNode_def setVNTBootnode_def setBootstrapNodes_def
        example_defs go_int_defs Let_def)
  have hyps: "0 \<le> GlobalInt ?ctx MaxPeersFlag_Name" "0 \<le> GlobalInt ?ctx LightPeersFlag_Name"
    "0 \<le> MaxPeers p2p_cfg0"
    "GlobalInt ?ctx MaxPeersFlag_Name + GlobalInt ?ctx LightPeersFlag_Name < 2 ^ 63"
    "MaxPeers p2p_cfg0 + GlobalInt ?ctx LightPeersFlag_Name < 2 ^ 63"
    by (simp_all add: example_defs)
  have server: "GlobalInt ?ctx LightServFlag_Name \<noteq> 0" "\<not> GlobalIsSet ?ctx MaxPeersFlag_Name"
    by (simp_all add: example_defs)
  show ?thesis
    using SetP2PConfig_slots [OF ret hyps] ret hyps server
    by simp
qed







section \<open>Facts about SetEthConfig\<close>

lemma setCoinbase_frame:
  "setCoinbase env ctx ks cfg = Inr c \<Longrightarrow>
   DatabaseCache c = DatabaseCache cfg \<and> TrieCache c = TrieCache cfg"
  by (auto simp: setCoinbase_def split: if_splits sum.splits)

lemma SetEthConfig_network_caches:
  "DatabaseCache (SetEthConfig_network ctx c) =
     (if GlobalIsSet ctx CacheFlag_Name \<or> GlobalIsSet ctx CacheDatabaseFlag_Name
      then go_quo (go_mul (GlobalInt ctx CacheFlag_Name) (GlobalInt ctx CacheDatabaseFlag_Name)) 100
      else DatabaseCache c)"
  "TrieCache (SetEthConfig_network ctx c) = TrieCache c"
  by (simp_all add: SetEthConfig_network_def Let_def)

lemma SetEthConfig_pruning_caches:
  "DatabaseCache (SetEthConfig_pruning ctx c) = DatabaseCache c"
  "TrieCache (SetEthConfig_pruning ctx c) =
     (if GlobalIsSet ctx CacheFlag_Name \<or> GlobalIsSet ctx CacheGCFlag_Name
      then go_quo (go_mul (GlobalInt ctx CacheFlag_Name) (GlobalInt ctx CacheGCFlag_Name)) 100
      else TrieCache c)"
  "NoPruning (SetEthConfig_pruning ctx c) = (GlobalString ctx GCModeFlag_Name = ''archive'')"
  by (simp_all add: SetEthConfig_pruning_def Let_def)

text \<open>What a run of \<^const>\<open>SetEthConfig\<close> that returns has computed for the two
  caches and the pruning switch.\<close>

lemma SetEthConfig_Inr:
  assumes "SetEthConfig env ctx stack cfg gen = Inr (cfg', gen')"
  shows "DatabaseCache cfg' =
     (if GlobalIsSet ctx CacheFlag_Name \<or> GlobalIsSet ctx CacheDatabaseFlag_Name
      then go_quo (go_mul (GlobalInt ctx CacheFlag_Name) (GlobalInt ctx CacheDatabaseFlag_Name)) 100
      else DatabaseCache cfg)"
    and "TrieCache cfg' =
     (if GlobalIsSet ctx CacheFlag_Name \<or> GlobalIsSet ctx CacheGCFlag_Name
      then go_quo (go_mul (GlobalInt ctx CacheFlag_Name) (GlobalInt ctx CacheGCFlag_Name)) 100
      else TrieCache cfg)"
    and "NoPruning cfg' = (GlobalString ctx GCModeFlag_Name = ''archive'')"
    and "GlobalString ctx GCModeFlag_Name = ''full'' \<or> GlobalString ctx GCModeFlag_Name = ''archive''"
proof -
  from assms obtain ks c1 handles where
    c1: "setCoinbase env ctx ks cfg = Inr c1"
    and legal: "GlobalString ctx GCModeFlag_Name = ''full'' \<or> GlobalString ctx GCModeFlag_Name = ''archive''"
    and res: "cfg' = SetEthConfig_pruning ctx
        ((SetEthConfig_network ctx (c1\<lparr>GPO := setGPO ctx (GPO c1), TxPool := setTxPool ctx (TxPool c1)\<rparr>))
          \<lparr>DatabaseHandles := handles\<rparr>)"
    by (auto simp: SetEthConfig_def Let_def split: sum.splits list.splits option.splits if_splits)
  note f = setCoinbase_frame [OF c1]
  show "DatabaseCache cfg' =
     (if GlobalIsSet ctx CacheFlag_Name \<or> GlobalIsSet ctx CacheDatabaseFlag_Name
      then go_quo (go_mul (GlobalInt ctx CacheFlag_Name) (GlobalInt ctx CacheDatabaseFlag_Name)) 100
      else DatabaseCache cfg)"
    unfolding res by (simp add: SetEthConfig_pruning_caches SetEthConfig_network_caches f)
  show "TrieCache cfg' =
     (if GlobalIsSet ctx CacheFlag_Name \<or> GlobalIsSet ctx CacheGCFlag_Name
      then go_quo (go_mul (GlobalInt ctx CacheFlag_Name) (GlobalInt ctx CacheGCFlag_Name)) 100
      else TrieCache cfg)"
    unfolding res by (simp add: SetEthConfig_pruning_caches SetEthConfig_network_caches f)
  show "NoPruning cfg' = (GlobalString ctx GCModeFlag_Name = ''archive'')"
    unfolding res by (simp add: SetEthConfig_pruning_caches)
  show "GlobalString ctx GCModeFlag_Name = ''full'' \<or> GlobalString ctx GCModeFlag_Name = ''archive''"
    by (rule legal)
qed

text \<open>\<^const>\<open>SetEthConfig\<close> returns when none of its steps ends the process.\<close>

lemma SetEthConfig_returns:
  assumes "checkExclusive ctx [ArgFlag LightServFlag_Name, ArgFlag SyncModeFlag_Name, ArgString ''light''] = Inr ()"
    and "Backends env stack = backend # rest"
    and "asKeyStore env backend = Some ks"
    and "setCoinbase env ctx ks cfg = Inr c1"
    and "makeDatabaseHandles env = Inr handles"
    and "GlobalString ctx GCModeFlag_Name = ''full'' \<or> GlobalString ctx GCModeFlag_Name = ''archive''"
  shows "\<exists>cfg' gen'. SetEthConfig env ctx stack cfg gen = Inr (cfg', gen')"
  using assms by (auto simp: SetEthConfig_def Let_def)

section \<open>The cache budget and the pruning mode (claims C6, C7 and C8)\<close>

text \<open>
  Claim C6, as stated, fails. The percentages are not checked against each other:
  with \<^verbatim>\<open>--cache.database 100 --cache.gc 100\<close> and the default budget of 1024 both
  caches get 1024, which together exceed the budget. With \<^verbatim>\<open>--cache 0\<close> the two
  caches are 0 and their sum equals the budget although the percentages (10 and the
  default 25) do not add up to 100. With \<^verbatim>\<open>--cache 4611686018427387904\<close> the
  product with the percentage 100 wraps around to 0, so the database cache is 0 and
  not the budget.
\<close>

theorem SetEthConfig_cache_counterexample:
  "SetEthConfig eth_env0
     (with_int CacheGCFlag_Name 100 (with_int CacheDatabaseFlag_Name 100 no_flags)) () eth_cfg0 0
   = Inr (eth_cfg0\<lparr>DatabaseCache := 1024, DatabaseHandles := 1024, TrieCache := 1024\<rparr>, 0)
   \<and> GlobalInt (with_int CacheGCFlag_Name 100 (with_int CacheDatabaseFlag_Name 100 no_flags))
         CacheFlag_Name = 1024
   \<and> \<not> ((1024::int) + 1024 \<le> 1024)
   \<and>
   SetEthConfig eth_env0
     (with_int CacheDatabaseFlag_Name 10 (with_int CacheFlag_Name 0 no_flags)) () eth_cfg0 0
   = Inr (eth_cfg0\<lparr>DatabaseCache := 0, DatabaseHandles := 1024, TrieCache := 0\<rparr>, 0)
   \<and> GlobalInt (with_int CacheDatabaseFlag_Name 10 (with_int CacheFlag_Name 0 no_flags))
         CacheGCFlag_Name = 25
   \<and> (10::int) + 25 \<noteq> 100
   \<and>
   SetEthConfig eth_env0
     (with_int CacheDatabaseFlag_Name 100 (with_int CacheFlag_Name 4611686018427387904 no_flags))
     () eth_cfg0 0
   = Inr (eth_cfg0\<lparr>DatabaseCache := 0, DatabaseHandles := 1024,
                  TrieCache := 46116860184273879\<rparr>, 0)
   \<and> (4611686018427387904 * 100) div 100 \<noteq> (0::int)"
  by (simp add: SetEthConfig_def checkExclusive_def setCoinbase_def setGPO_def setTxPool_def
      SetEthConfig_network_def SetEthConfig_pruning_def makeDatabaseHandles_def
      example_defs go_int_defs Let_def)

text \<open>
  Claim C6, amended. Let the budget \<open>B\<close> be non-negative with \<open>B * 100\<close> inside the
  int type, and let the two percentages \<open>a\<close> and \<open>b\<close> lie in [0,100]. Whenever
  \<^const>\<open>SetEthConfig\<close> returns: if the budget or the database percentage was set,
  the database cache is \<open>floor (B * a / 100)\<close>; if the budget or the gc percentage
  was set, the trie cache is \<open>floor (B * b / 100)\<close>; and if both were recomputed and
  \<open>a + b \<le> 100\<close>, their sum is at most \<open>B\<close>, with equality only when
  \<open>a + b = 100\<close> or \<open>B = 0\<close>.
\<close>

theorem SetEthConfig_cache_shares:
  assumes ret: "SetEthConfig env ctx stack cfg gen = Inr (cfg', gen')"
    and B: "0 \<le> GlobalInt ctx CacheFlag_Name" "GlobalInt ctx CacheFlag_Name * 100 < 2 ^ 63"
    and a: "0 \<le> GlobalInt ctx CacheDatabaseFlag_Name" "GlobalInt ctx CacheDatabaseFlag_Name \<le> 100"
    and b: "0 \<le> GlobalInt ctx CacheGCFlag_Name" "GlobalInt ctx CacheGCFlag_Name \<le> 100"
  shows "(GlobalIsSet ctx CacheFlag_Name \<or> GlobalIsSet ctx CacheDatabaseFlag_Name \<longrightarrow>
        DatabaseCache cfg' =
          (GlobalInt ctx CacheFlag_Name * GlobalInt ctx CacheDatabaseFlag_Name) div 100) \<and>
     (GlobalIsSet ctx CacheFlag_Name \<or> GlobalIsSet ctx CacheGCFlag_Name \<longrightarrow>
        TrieCache cfg' =
          (GlobalInt ctx CacheFlag_Name * GlobalInt ctx CacheGCFlag_Name) div 100) \<and>
     ((GlobalIsSet ctx CacheFlag_Name \<or>
       GlobalIsSet ctx CacheDatabaseFlag_Name \<and> GlobalIsSet ctx CacheGCFlag_Name) \<and>
      GlobalInt ctx CacheDatabaseFlag_Name + GlobalInt ctx CacheGCFlag_Name \<le> 100 \<longrightarrow>
        DatabaseCache cfg' + TrieCache cfg' \<le> GlobalInt ctx CacheFlag_Name \<and>
        (DatabaseCache cfg' + TrieCache cfg' = GlobalInt ctx CacheFlag_Name \<longrightarrow>
           GlobalInt ctx CacheDatabaseFlag_Name + GlobalInt ctx CacheGCFlag_Name = 100 \<or>
           GlobalInt ctx CacheFlag_Name = 0))"
proof -
  define budget where "budget = GlobalInt ctx CacheFlag_Name"
  define pa where "pa = GlobalInt ctx CacheDatabaseFlag_Name"
  define pb where "pb = GlobalInt ctx CacheGCFlag_Name"
  note r = SetEthConfig_Inr [OF ret, folded budget_def pa_def pb_def]
  note h = B a b
  have sa: "go_quo (go_mul budget pa) 100 = (budget * pa) div 100"
    using h unfolding budget_def pa_def by (intro cache_share)
  have sb: "go_quo (go_mul budget pb) 100 = (budget * pb) div 100"
    using h unfolding budget_def pb_def by (intro cache_share)
  have le: "pa + pb \<le> 100 \<Longrightarrow> (budget * pa) div 100 + (budget * pb) div 100 \<le> budget"
    using h unfolding budget_def pa_def pb_def by (intro cache_shares_sum)
  have eq: "pa + pb \<le> 100 \<Longrightarrow> (budget * pa) div 100 + (budget * pb) div 100 = budget \<Longrightarrow>
      pa + pb = 100 \<or> budget = 0"
  proof (rule ccontr)
    assume s: "pa + pb \<le> 100" and e: "(budget * pa) div 100 + (budget * pb) div 100 = budget"
      and n: "\<not> (pa + pb = 100 \<or> budget = 0)"
    then have "0 < budget" "pa + pb < 100" using h unfolding budget_def by simp_all
    then have "(budget * pa) div 100 + (budget * pb) div 100 < budget"
      using h unfolding pa_def pb_def by (intro cache_shares_below)
    with e show False by simp
  qed
  show ?thesis
    unfolding budget_def [symmetric] pa_def [symmetric] pb_def [symmetric]
    using r(1,2) sa sb le eq by auto
qed

theorem SetEthConfig_cache_shares_witness:
  "SetEthConfig eth_env0 (with_int CacheFlag_Name 2048 no_flags) () eth_cfg0 0
   = Inr (eth_cfg0\<lparr>DatabaseCache := 1536, DatabaseHandles := 1024, TrieCache := 512\<rparr>, 0)
   \<and> GlobalIsSet (with_int CacheFlag_Name 2048 no_flags) CacheFlag_Name
   \<and> GlobalInt (with_int CacheFlag_Name 2048 no_flags) CacheFlag_Name = 2048
   \<and> GlobalInt (with_int CacheFlag_Name 2048 no_flags) CacheDatabaseFlag_Name = 75
   \<and> GlobalInt (with_int CacheFlag_Name 2048 no_flags) CacheGCFlag_Name = 25
   \<and> DatabaseCache (eth_cfg0\<lparr>DatabaseCache := 1536, DatabaseHandles := 1024, TrieCache := 512\<rparr>)
       = (2048 * 75) div 100
   \<and> TrieCache (eth_cfg0\<lparr>DatabaseCache := 1536, DatabaseHandles := 1024, TrieCache := 512\<rparr>)
       = (2048 * 25) div 100
   \<and> DatabaseCache (eth_cfg0\<lparr>DatabaseCache := 1536, DatabaseHandles := 1024, TrieCache := 512\<rparr>)
       + TrieCache (eth_cfg0\<lparr>DatabaseCache := 1536, DatabaseHandles := 1024, TrieCache := 512\<rparr>)
       \<le> 2048"
proof -
  let ?ctx = "with_int CacheFlag_Name 2048 no_flags"
  have ret: "SetEthConfig eth_env0 ?ctx () eth_cfg0 0
      = Inr (eth_cfg0\<lparr>DatabaseCache := 1536, DatabaseHandles := 1024, TrieCache := 512\<rparr>, 0)"
    by (simp add: SetEthConfig_def checkExclusive_def setCoinbase_def setGPO_def setTxPool_def
        SetEthConfig_network_def SetEthConfig_pruning_def makeDatabaseHandles_def
        example_defs go_int_defs Let_def)
  have vals: "GlobalIsSet ?ctx CacheFlag_Name" "GlobalInt ?ctx CacheFlag_Name = 2048"
    "GlobalInt ?ctx CacheDatabaseFlag_Name = 75" "GlobalInt ?ctx CacheGCFlag_Name = 25"
    by (simp_all add: example_defs)
  have hyps: "0 \<le> GlobalInt ?ctx CacheFlag_Name" "GlobalInt ?ctx CacheFlag_Name * 100 < 2 ^ 63"
    "0 \<le> GlobalInt ?ctx CacheDatabaseFlag_Name" "GlobalInt ?ctx CacheDatabaseFlag_Name \<le> 100"
    "0 \<le> GlobalInt ?ctx CacheGCFlag_Name" "GlobalInt ?ctx CacheGCFlag_Name \<le> 100"
    by (simp_all add: vals)
  show ?thesis
    using SetEthConfig_cache_shares [OF ret hyps] ret vals
    by simp
qed

text \<open>
  Claim C7. Whenever \<^const>\<open>SetEthConfig\<close> returns: if neither the cache budget flag
  nor the database-percentage flag was set, the DatabaseCache field is what it was
  before the call; if neither the cache budget flag nor the gc-percentage flag was
  set, the TrieCache field is what it was before the call.
\<close>

theorem SetEthConfig_cache_frame:
  assumes ret: "SetEthConfig env ctx stack cfg gen = Inr (cfg', gen')"
  shows "(\<not> GlobalIsSet ctx CacheFlag_Name \<and> \<not> GlobalIsSet ctx CacheDatabaseFlag_Name \<longrightarrow>
        DatabaseCache cfg' = DatabaseCache cfg) \<and>
     (\<not> GlobalIsSet ctx CacheFlag_Name \<and> \<not> GlobalIsSet ctx CacheGCFlag_Name \<longrightarrow>
        TrieCache cfg' = TrieCache cfg)"
  using SetEthConfig_Inr(1,2) [OF ret] by simp

theorem SetEthConfig_cache_frame_witness:
  "SetEthConfig eth_env0 (with_int CacheGCFlag_Name 50 no_flags) () eth_cfg0 0
   = Inr (eth_cfg0\<lparr>DatabaseHandles := 1024, TrieCache := 512\<rparr>, 0)
   \<and> \<not> GlobalIsSet (with_int CacheGCFlag_Name 50 no_flags) CacheFlag_Name
   \<and> \<not> GlobalIsSet (with_int CacheGCFlag_Name 50 no_flags) CacheDatabaseFlag_Name
   \<and> DatabaseCache (eth_cfg0\<lparr>DatabaseHandles := 1024, TrieCache := 512\<rparr>) = DatabaseCache eth_cfg0"
proof -
  let ?ctx = "with_int CacheGCFlag_Name 50 no_flags"
  have ret: "SetEthConfig eth_env0 ?ctx () eth_cfg0 0
      = Inr (eth_cfg0\<lparr>DatabaseHandles := 1024, TrieCache := 512\<rparr>, 0)"
    by (simp add: SetEthConfig_def checkExclusive_def setCoinbase_def setGPO_def setTxPool_def
        SetEthConfig_network_def SetEthConfig_pruning_def makeDatabaseHandles_def
        example_defs go_int_defs Let_def)
  have unset: "\<not> GlobalIsSet ?ctx CacheFlag_Name" "\<not> GlobalIsSet ?ctx CacheDatabaseFlag_Name"
    by (simp_all add: example_defs)
  show ?thesis
    using SetEthConfig_cache_frame [OF ret] ret unset
    by simp
qed

text \<open>
  Claim C8. If the garbage-collection mode is neither "full" nor "archive",
  \<^const>\<open>SetEthConfig\<close> never returns a configuration: it ends in a failure, and
  when the steps before the check have passed (the mutual-exclusion check, the lookup
  of the key store, the coinbase and the file-descriptor allowance) the failure is the
  fatal exit with the message that the mode must be either 'full' or 'archive'. If the
  mode is "full" or "archive" and the steps before the check have passed,
  \<^const>\<open>SetEthConfig\<close> returns, and NoPruning is true in the configuration it
  returns exactly when the mode is "archive". Whenever \<^const>\<open>SetEthConfig\<close>
  returns, the mode is legal and NoPruning is true exactly when the mode is "archive".
\<close>

theorem SetEthConfig_gcmode:
  "(GlobalString ctx GCModeFlag_Name \<noteq> ''full'' \<and> GlobalString ctx GCModeFlag_Name \<noteq> ''archive'' \<longrightarrow>
      (\<exists>f. SetEthConfig env ctx stack cfg gen = Inl f) \<and>
      (checkExclusive ctx [ArgFlag LightServFlag_Name, ArgFlag SyncModeFlag_Name, ArgString ''light''] = Inr () \<and>
       (\<exists>backend rest ks c1. Backends env stack = backend # rest \<and> asKeyStore env backend = Some ks \<and>
          setCoinbase env ctx ks cfg = Inr c1) \<and>
       (\<exists>handles. makeDatabaseHandles env = Inr handles) \<longrightarrow>
       SetEthConfig env ctx stack cfg gen =
         Inl (Fatalf (''--%s must be either 'full' or 'archive'' @ [CHR 0x27])
                [FmtString GCModeFlag_Name]))) \<and>
   ((GlobalString ctx GCModeFlag_Name = ''full'' \<or> GlobalString ctx GCModeFlag_Name = ''archive'') \<and>
    checkExclusive ctx [ArgFlag LightServFlag_Name, ArgFlag SyncModeFlag_Name, ArgString ''light''] = Inr () \<and>
    (\<exists>backend rest ks c1. Backends env stack = backend # rest \<and> asKeyStore env backend = Some ks \<and>
       setCoinbase env ctx ks cfg = Inr c1) \<and>
    (\<exists>handles. makeDatabaseHandles env = Inr handles) \<longrightarrow>
      (\<exists>cfg' gen'. SetEthConfig env ctx stack cfg gen = Inr (cfg', gen') \<and>
         NoPruning cfg' = (GlobalString ctx GCModeFlag_Name = ''archive''))) \<and>
   (\<forall>cfg' gen'. SetEthConfig env ctx stack cfg gen = Inr (cfg', gen') \<longrightarrow>
      (GlobalString ctx GCModeFlag_Name = ''full'' \<or> GlobalString ctx GCModeFlag_Name = ''archive'') \<and>
      NoPruning cfg' = (GlobalString ctx GCModeFlag_Name = ''archive''))"
proof (intro conjI impI allI)
  assume illegal: "GlobalString ctx GCModeFlag_Name \<noteq> ''full'' \<and> GlobalString ctx GCModeFlag_Name \<noteq> ''archive''"
  show "\<exists>f. SetEthConfig env ctx stack cfg gen = Inl f"
  proof (cases "SetEthConfig env ctx stack cfg gen")
    case (Inl f)
    then show ?thesis by blast
  next
    case (Inr p)
    then have "SetEthConfig env ctx stack cfg gen = Inr (fst p, snd p)" by simp
    from SetEthConfig_Inr(4) [OF this] illegal show ?thesis by simp
  qed
next
  assume illegal: "GlobalString ctx GCModeFlag_Name \<noteq> ''full'' \<and> GlobalString ctx GCModeFlag_Name \<noteq> ''archive''"
    and passed: "checkExclusive ctx [ArgFlag LightServFlag_Name, ArgFlag SyncModeFlag_Name, ArgString ''light''] = Inr () \<and>
       (\<exists>backend rest ks c1. Backends env stack = backend # rest \<and> asKeyStore env backend = Some ks \<and>
          setCoinbase env ctx ks cfg = Inr c1) \<and>
       (\<exists>handles. makeDatabaseHandles env = Inr handles)"
  then show "SetEthConfig env ctx stack cfg gen =
         Inl (Fatalf (''--%s must be either 'full' or 'archive'' @ [CHR 0x27])
                [FmtString GCModeFlag_Name])"
    by (auto simp: SetEthConfig_def Let_def)
next
  assume legal: "(GlobalString ctx GCModeFlag_Name = ''full'' \<or> GlobalString ctx GCModeFlag_Name = ''archive'') \<and>
    checkExclusive ctx [ArgFlag LightServFlag_Name, ArgFlag SyncModeFlag_Name, ArgString ''light''] = Inr () \<and>
    (\<exists>backend rest ks c1. Backends env stack = backend # rest \<and> asKeyStore env backend = Some ks \<and>
       setCoinbase env ctx ks cfg = Inr c1) \<and>
    (\<exists>handles. makeDatabaseHandles env = Inr handles)"
  then obtain backend rest ks c1 handles where
    steps: "checkExclusive ctx [ArgFlag LightServFlag_Name, ArgFlag SyncModeFlag_Name, ArgString ''light''] = Inr ()"
      "Backends env stack = backend # rest" "asKeyStore env backend = Some ks"
      "setCoinbase env ctx ks cfg = Inr c1" "makeDatabaseHandles env = Inr handles"
      "GlobalString ctx GCModeFlag_Name = ''full'' \<or> GlobalString ctx GCModeFlag_Name = ''archive''"
    by blast
  from SetEthConfig_returns [OF steps, of gen]
  obtain cfg' gen' where ret: "SetEthConfig env ctx stack cfg gen = Inr (cfg', gen')"
    by blast
  have "NoPruning cfg' = (GlobalString ctx GCModeFlag_Name = ''archive'')"
    by (rule SetEthConfig_Inr(3) [OF ret])
  with ret show "\<exists>cfg' gen'. SetEthConfig env ctx stack cfg gen = Inr (cfg', gen') \<and>
         NoPruning cfg' = (GlobalString ctx GCModeFlag_Name = ''archive'')"
    by blast
next
  fix cfg' gen'
  assume ret: "SetEthConfig env ctx stack cfg gen = Inr (cfg', gen')"
  show "GlobalString ctx GCModeFlag_Name = ''full'' \<or> GlobalString ctx GCModeFlag_Name = ''archive''"
    by (rule SetEthConfig_Inr(4) [OF ret])
  show "NoPruning cfg' = (GlobalString ctx GCModeFlag_Name = ''archive'')"
    by (rule SetEthConfig_Inr(3) [OF ret])
qed

text \<open>Three runs: the illegal mode "fast" ends in the fatal exit; the mode "archive"
  sets NoPruning; the mode "full", on a configuration that comes with NoPruning set,
  passes the check and clears it.\<close>

theorem SetEthConfig_gcmode_witness:
  "GlobalString (with_string GCModeFlag_Name ''fast'' no_flags) GCModeFlag_Name \<noteq> ''full''
   \<and> GlobalString (with_string GCModeFlag_Name ''fast'' no_flags) GCModeFlag_Name \<noteq> ''archive''
   \<and> SetEthConfig eth_env0 (with_string GCModeFlag_Name ''fast'' no_flags) () eth_cfg0 0
       = Inl (Fatalf (''--%s must be either 'full' or 'archive'' @ [CHR 0x27])
                [FmtString GCModeFlag_Name])
   \<and> GlobalString (with_string GCModeFlag_Name ''archive'' no_flags) GCModeFlag_Name = ''archive''
   \<and> SetEthConfig eth_env0 (with_string GCModeFlag_Name ''archive'' no_flags) () eth_cfg0 0
       = Inr (eth_cfg0\<lparr>DatabaseHandles := 1024, NoPruning := True\<rparr>, 0)
   \<and> NoPruning (eth_cfg0\<lparr>DatabaseHandles := 1024, NoPruning := True\<rparr>)
   \<and> GlobalString (with_string GCModeFlag_Name ''full'' no_flags) GCModeFlag_Name = ''full''
   \<and> NoPruning (eth_cfg0\<lparr>NoPruning := True\<rparr>)
   \<and> SetEthConfig eth_env0 (with_string GCModeFlag_Name ''full'' no_flags) ()
         (eth_cfg0\<lparr>NoPruning := True\<rparr>) 0
       = Inr (eth_cfg0\<lparr>DatabaseHandles := 1024, NoPruning := False\<rparr>, 0)
   \<and> \<not> NoPruning (eth_cfg0\<lparr>DatabaseHandles := 1024, NoPruning := False\<rparr>)"
proof -
  let ?bad = "with_string GCModeFlag_Name ''fast'' no_flags"
  let ?arch = "with_string GCModeFlag_Name ''archive'' no_flags"
  let ?full = "with_string GCModeFlag_Name ''full'' no_flags"
  let ?pruned = "eth_cfg0\<lparr>NoPruning := True\<rparr>"
  have illegal: "GlobalString ?bad GCModeFlag_Name \<noteq> ''full'' \<and> GlobalString ?bad GCModeFlag_Name \<noteq> ''archive''"
    by (simp add: example_defs)
  have passed: "checkExclusive ?bad [ArgFlag LightServFlag_Name, ArgFlag SyncModeFlag_Name, ArgString ''light''] = Inr () \<and>
       (\<exists>backend rest ks c1. Backends eth_env0 () = backend # rest \<and> asKeyStore eth_env0 backend = Some ks \<and>
          setCoinbase eth_env0 ?bad ks eth_cfg0 = Inr c1) \<and>
       (\<exists>handles. makeDatabaseHandles eth_env0 = Inr handles)"
    by (simp add: checkExclusive_def setCoinbase_def makeDatabaseHandles_def example_defs)
  have ret: "SetEthConfig eth_env0 ?arch () eth_cfg0 0
      = Inr (eth_cfg0\<lparr>DatabaseHandles := 1024, NoPruning := True\<rparr>, 0)"
    by (simp add: SetEthConfig_def checkExclusive_def setCoinbase_def setGPO_def setTxPool_def
        SetEthConfig_network_def SetEthConfig_pruning_def makeDatabaseHandles_def
        example_defs go_int_defs Let_def)
  have arch: "GlobalString ?arch GCModeFlag_Name = ''archive''"
    by (simp add: example_defs)
  have full: "GlobalString ?full GCModeFlag_Name = ''full''"
    by (simp add: example_defs)
  have passed_full: "(GlobalString ?full GCModeFlag_Name = ''full'' \<or> GlobalString ?full GCModeFlag_Name = ''archive'') \<and>
       checkExclusive ?full [ArgFlag LightServFlag_Name, ArgFlag SyncModeFlag_Name, ArgString ''light''] = Inr () \<and>
       (\<exists>backend rest ks c1. Backends eth_env0 () = backend # rest \<and> asKeyStore eth_env0 backend = Some ks \<and>
          setCoinbase eth_env0 ?full ks ?pruned = Inr c1) \<and>
       (\<exists>handles. makeDatabaseHandles eth_env0 = Inr handles)"
    by (simp add: checkExclusive_def setCoinbase_def makeDatabaseHandles_def example_defs)
  have ret_full: "SetEthConfig eth_env0 ?full () ?pruned 0
      = Inr (eth_cfg0\<lparr>DatabaseHandles := 1024, NoPruning := False\<rparr>, 0)"
    by (simp add: SetEthConfig_def checkExclusive_def setCoinbase_def setGPO_def setTxPool_def
        SetEthConfig_network_def SetEthConfig_pruning_def makeDatabaseHandles_def
        example_defs go_int_defs Let_def)
  have before: "NoPruning ?pruned"
    by simp
  from SetEthConfig_gcmode [of ?bad eth_env0 "()" eth_cfg0 0] illegal passed
  have bad: "SetEthConfig eth_env0 ?bad () eth_cfg0 0
       = Inl (Fatalf (''--%s must be either 'full' or 'archive'' @ [CHR 0x27])
                [FmtString GCModeFlag_Name])"
    by blast
  from SetEthConfig_gcmode [of ?arch eth_env0 "()" eth_cfg0 0] ret arch
  have set_arch: "NoPruning (eth_cfg0\<lparr>DatabaseHandles := 1024, NoPruning := True\<rparr>)"
    by blast
  from SetEthConfig_gcmode [of ?full eth_env0 "()" ?pruned 0] passed_full
  obtain cfg' gen' where r: "SetEthConfig eth_env0 ?full () ?pruned 0 = Inr (cfg', gen')"
    "NoPruning cfg' = (GlobalString ?full GCModeFlag_Name = ''archive'')"
    by blast
  from r(1) ret_full have "cfg' = eth_cfg0\<lparr>DatabaseHandles := 1024, NoPruning := False\<rparr>"
    by simp
  with r(2) full have clear_full: "\<not> NoPruning (eth_cfg0\<lparr>DatabaseHandles := 1024, NoPruning := False\<rparr>)"
    by simp
  from illegal bad arch ret set_arch full before ret_full clear_full show ?thesis
    by blast
qed

section \<open>The mutual-exclusion check (claim C1)\<close>

text \<open>On the arguments that pass a group, the loop lists every member that is
  explicitly set, whatever its qualifier.\<close>

lemma checkExclusive_loop_group:
  "checkExclusive_loop ctx (group_args members) sets =
     Inr (sets @ map (listed_name ctx) (filter (\<lambda>m. GlobalIsSet ctx (fst m)) members))"
proof (induction members arbitrary: sets)
  case Nil
  then show ?case by simp
next
  case (Cons m members)
  obtain name qualifier where m: "m = (name, qualifier)" by (cases m)
  show ?case
  proof (cases qualifier)
    case (Some v)
    then show ?thesis using Cons m by (simp add: listed_name_def Let_def)
  next
    case None
    show ?thesis
    proof (cases members)
      case Nil
      then show ?thesis using None m by (simp add: listed_name_def)
    next
      case (Cons m' rest)
      obtain name' qualifier' where m': "m' = (name', qualifier')" by (cases m')
      have "\<exists>tail. group_args members = ArgFlag name' # tail"
        using Cons m' by (cases qualifier') simp_all
      then obtain tail where tail: "group_args members = ArgFlag name' # tail" ..
      have "checkExclusive_loop ctx (group_args (m # members)) sets =
          checkExclusive_loop ctx (group_args members)
            (if GlobalIsSet ctx name then sets @ [''--'' @ name] else sets)"
        using None m tail by simp
      then show ?thesis
        using Cons.IH [of "if GlobalIsSet ctx name then sets @ [''--'' @ name] else sets"] None m
        by (simp add: listed_name_def)
    qed
  qed
qed

text \<open>So \<^const>\<open>checkExclusive\<close> reports a group exactly when two or more of its
  members are explicitly set.\<close>

lemma checkExclusive_group:
  "checkExclusive ctx (group_args members) =
     (if length (filter (\<lambda>m. GlobalIsSet ctx (fst m)) members) > 1
      then Inl (Fatalf ''Flags %v can't be used at the same time''
             [FmtString (Join (map (listed_name ctx)
                 (filter (\<lambda>m. GlobalIsSet ctx (fst m)) members)) '', '')])
      else Inr ())"
  by (simp add: checkExclusive_def checkExclusive_loop_group)

text \<open>Every group the specified check reports is reported; a group with at most one
  explicitly set member is not.\<close>

lemma spec_qualifying_set:
  "length (spec_qualifying ctx members) \<le> length (filter (\<lambda>m. GlobalIsSet ctx (fst m)) members)"
  by (induction members) (auto simp: spec_qualifying_def)

lemma checkExclusive_reports_spec_conflicts:
  assumes "spec_checkMutuallyExclusive ctx members"
  shows "\<exists>f. checkExclusive ctx (group_args members) = Inl f"
  using assms spec_qualifying_set [of ctx members]
  by (simp add: checkExclusive_group spec_checkMutuallyExclusive_def)

lemma checkExclusive_accepts_single:
  assumes "length (filter (\<lambda>m. GlobalIsSet ctx (fst m)) members) \<le> 1"
  shows "checkExclusive ctx (group_args members) = Inr ()"
  using assms by (simp add: checkExclusive_group)

text \<open>
  Claim C1 does not hold of the code. With \<^verbatim>\<open>--lightserv 10 --syncmode fast\<close> the
  group of line 914 has one qualifying member (the sync mode is set, but its value is
  not the qualifier "light"), so the specified check passes; \<^const>\<open>checkExclusive\<close>
  counts the sync-mode flag all the same, reports the two flags and
  \<^const>\<open>SetEthConfig\<close> ends the process.
\<close>

theorem checkExclusive_counts_unqualified_member:
  "checkExclusive (with_int LightServFlag_Name 10 (with_syncmode ''fast'' FastSync no_flags))
     [ArgFlag LightServFlag_Name, ArgFlag SyncModeFlag_Name, ArgString ''light'']
   = Inl (Fatalf ''Flags %v can't be used at the same time'' [FmtString ''--lightserv, --syncmode''])
   \<and> spec_qualifying (with_int LightServFlag_Name 10 (with_syncmode ''fast'' FastSync no_flags))
       [(LightServFlag_Name, None), (SyncModeFlag_Name, Some ''light'')]
     = [(LightServFlag_Name, None)]
   \<and> \<not> spec_checkMutuallyExclusive
         (with_int LightServFlag_Name 10 (with_syncmode ''fast'' FastSync no_flags))
         [(LightServFlag_Name, None), (SyncModeFlag_Name, Some ''light'')]
   \<and> SetEthConfig eth_env0
         (with_int LightServFlag_Name 10 (with_syncmode ''fast'' FastSync no_flags)) () eth_cfg0 0
     = Inl (Fatalf ''Flags %v can't be used at the same time'' [FmtString ''--lightserv, --syncmode''])"
  by (simp add: SetEthConfig_def checkExclusive_def spec_checkMutuallyExclusive_def
      spec_qualifying_def example_defs)

section \<open>The password file (claim C9)\<close>

text \<open>
  Claim C9. With an empty password-file path \<^const>\<open>MakePasswordList\<close> returns nil.
  With a path whose file can be read it returns one line for each raw line of the
  content, where the raw lines are the content split at the newline characters
  (joined by newlines they give the content back, none contains a newline, and there
  is one more of them than newlines in the content), and each returned line is its
  raw line without the trailing carriage returns.
\<close>

theorem MakePasswordList_lines:
  "(GlobalString ctx PasswordFileFlag_Name = [] \<longrightarrow> MakePasswordList ReadFile ctx = Inr None) \<and>
   (GlobalString ctx PasswordFileFlag_Name \<noteq> [] \<and>
    ReadFile (GlobalString ctx PasswordFileFlag_Name) = Inr content \<longrightarrow>
      (\<exists>raw lines.
         MakePasswordList ReadFile ctx = Inr (Some lines) \<and>
         raw = Split content [CHR 0x0A] \<and>
         Join raw [CHR 0x0A] = content \<and>
         (\<forall>l \<in> set raw. CHR 0x0A \<notin> set l) \<and>
         length raw = Suc (count_list content (CHR 0x0A)) \<and>
         lines = map (\<lambda>line. TrimRight line [CHR 0x0D]) raw \<and>
         (\<forall>i < length raw.
            (\<exists>k. raw ! i = lines ! i @ replicate k (CHR 0x0D)) \<and>
            (lines ! i = [] \<or> last (lines ! i) \<noteq> CHR 0x0D))))"
proof (intro conjI impI)
  assume "GlobalString ctx PasswordFileFlag_Name = []"
  then show "MakePasswordList ReadFile ctx = Inr None"
    by (simp add: MakePasswordList_def)
next
  assume h: "GlobalString ctx PasswordFileFlag_Name \<noteq> [] \<and>
    ReadFile (GlobalString ctx PasswordFileFlag_Name) = Inr content"
  define raw where "raw = Split content [CHR 0x0A]"
  define lines where "lines = map (\<lambda>line. TrimRight line [CHR 0x0D]) raw"
  have ret: "MakePasswordList ReadFile ctx = Inr (Some lines)"
    using h by (simp add: MakePasswordList_def Let_def lines_def raw_def)
  have j: "Join raw [CHR 0x0A] = content"
    by (simp add: raw_def Split_Join)
  have n: "\<forall>l \<in> set raw. CHR 0x0A \<notin> set l"
    using Split_no_sep [of _ content "CHR 0x0A"] by (auto simp: raw_def)
  have c: "length raw = Suc (count_list content (CHR 0x0A))"
    by (simp add: raw_def Split_length)
  have t: "\<forall>i < length raw.
      (\<exists>k. raw ! i = lines ! i @ replicate k (CHR 0x0D)) \<and>
      (lines ! i = [] \<or> last (lines ! i) \<noteq> CHR 0x0D)"
    using TrimRight_replicate [of _ "CHR 0x0D"] TrimRight_last [of _ "CHR 0x0D"]
    by (simp add: lines_def)
  have "MakePasswordList ReadFile ctx = Inr (Some lines) \<and>
         raw = Split content [CHR 0x0A] \<and>
         Join raw [CHR 0x0A] = content \<and>
         (\<forall>l \<in> set raw. CHR 0x0A \<notin> set l) \<and>
         length raw = Suc (count_list content (CHR 0x0A)) \<and>
         lines = map (\<lambda>line. TrimRight line [CHR 0x0D]) raw \<and>
         (\<forall>i < length raw.
            (\<exists>k. raw ! i = lines ! i @ replicate k (CHR 0x0D)) \<and>
            (lines ! i = [] \<or> last (lines ! i) \<noteq> CHR 0x0D))"
    using ret j n c t by (simp add: lines_def raw_def)
  then show "\<exists>raw lines.
         MakePasswordList ReadFile ctx = Inr (Some lines) \<and>
         raw = Split content [CHR 0x0A] \<and>
         Join raw [CHR 0x0A] = content \<and>
         (\<forall>l \<in> set raw. CHR 0x0A \<notin> set l) \<and>
         length raw = Suc (count_list content (CHR 0x0A)) \<and>
         lines = map (\<lambda>line. TrimRight line [CHR 0x0D]) raw \<and>
         (\<forall>i < length raw.
            (\<exists>k. raw ! i = lines ! i @ replicate k (CHR 0x0D)) \<and>
            (lines ! i = [] \<or> last (lines ! i) \<noteq> CHR 0x0D))"
    by blast
qed

text \<open>A file that cannot be read ends the process.\<close>

lemma MakePasswordList_unreadable:
  "GlobalString ctx PasswordFileFlag_Name \<noteq> [] \<Longrightarrow>
   ReadFile (GlobalString ctx PasswordFileFlag_Name) = Inl e \<Longrightarrow>
   MakePasswordList ReadFile ctx = Inl (Fatalf ''Failed to read password file: %v'' [FmtError e])"
  by (simp add: MakePasswordList_def)

theorem MakePasswordList_lines_witness:
  "GlobalString no_flags PasswordFileFlag_Name = []
   \<and> MakePasswordList ReadFile0 no_flags = Inr None
   \<and> GlobalString (with_string PasswordFileFlag_Name ''passwords.txt'' no_flags) PasswordFileFlag_Name \<noteq> []
   \<and> ReadFile0 ''passwords.txt''
       = Inr (''secret'' @ [CHR 0x0D, CHR 0x0A] @ ''hunter2'' @ [CHR 0x0D, CHR 0x0A])
   \<and> MakePasswordList ReadFile0 (with_string PasswordFileFlag_Name ''passwords.txt'' no_flags)
       = Inr (Some [''secret'', ''hunter2'', []])"
proof -
  let ?ctx = "with_string PasswordFileFlag_Name ''passwords.txt'' no_flags"
  have e: "GlobalString no_flags PasswordFileFlag_Name = []"
    by (simp add: example_defs)
  have p: "GlobalString ?ctx PasswordFileFlag_Name = ''passwords.txt''"
    by (simp add: example_defs)
  have f: "ReadFile0 ''passwords.txt''
       = Inr (''secret'' @ [CHR 0x0D, CHR 0x0A] @ ''hunter2'' @ [CHR 0x0D, CHR 0x0A])"
    by (simp add: ReadFile0_def)
  have s: "Split (''secret'' @ [CHR 0x0D, CHR 0x0A] @ ''hunter2'' @ [CHR 0x0D, CHR 0x0A]) [CHR 0x0A]
      = [''secret'' @ [CHR 0x0D], ''hunter2'' @ [CHR 0x0D], []]"
    by (simp add: Split_def)
  have t: "TrimRight (''secret'' @ [CHR 0x0D]) [CHR 0x0D] = ''secret''"
    "TrimRight (''hunter2'' @ [CHR 0x0D]) [CHR 0x0D] = ''hunter2''"
    "TrimRight [] [CHR 0x0D] = []"
    by (simp_all add: TrimRight_def)
  from MakePasswordList_lines [of no_flags ReadFile0] e
  have none: "MakePasswordList ReadFile0 no_flags = Inr None"
    by blast
  from MakePasswordList_lines [of ?ctx ReadFile0
      "''secret'' @ [CHR 0x0D, CHR 0x0A] @ ''hunter2'' @ [CHR 0x0D, CHR 0x0A]"] p f
  obtain raw lines where r: "MakePasswordList ReadFile0 ?ctx = Inr (Some lines)"
    "raw = Split (''secret'' @ [CHR 0x0D, CHR 0x0A] @ ''hunter2'' @ [CHR 0x0D, CHR 0x0A]) [CHR 0x0A]"
    "lines = map (\<lambda>line. TrimRight line [CHR 0x0D]) raw"
    by auto
  have "lines = [''secret'', ''hunter2'', []]"
    unfolding r(3) r(2) s using t by simp
  with r(1) e none p f show ?thesis by simp
qed

section \<open>The service selection (claim C3)\<close>

text \<open>\<^const>\<open>RegisterEthService\<close> returns unless the node refuses the registration.\<close>

lemma RegisterEthService_returns:
  "(\<exists>stack'. RegisterEthService env stack cfg = Inr stack') \<longleftrightarrow> Register_refuses env stack = None"
  by (auto simp: RegisterEthService_def Register_def split: option.splits)

text \<open>A full node that could not be constructed gets no sidecar: there is nothing to
  attach it to.\<close>

lemma RegisterEthService_full_nil:
  "fst (vnt_New env sctx cfg stack) = None \<Longrightarrow>
   calls (RegisterEthService_full env stack cfg sctx) = [Call_vnt_New] \<and>
   service (RegisterEthService_full env stack cfg sctx) = FullService None"
  by (auto simp: RegisterEthService_full_def split: prod.splits)



end
